theory Spec2Isabelle
  imports Complex_Main "HOL-Library.Log_Nat" "HOL-Library.AList"
begin

section \<open>Python values used by the converter\<close>

text \<open>
  The converter (\<^verbatim>\<open>DXFtoJSONV12.py\<close>) reads a document model supplied by an external
  DXF parser and produces a JSON tree.  Exceptions are values of \<open>py_error\<close>; a
  computation that may raise has type \<open>py_error + 'a\<close>, with \<open>Inl\<close> the exception.
\<close>

datatype py_error = AttributeError | DXFAttributeError | TypeError | KeyError | ValueError

subsection \<open>Binary floating point\<close>

text \<open>
  Python's \<^verbatim>\<open>float\<close> is an IEEE 754 double.  A finite double is modelled by the real
  number it denotes; every arithmetic operation computes the exact result and rounds it
  to the nearest double, ties to the even significand (\<open>rnd\<close>).  Infinities and NaN are
  not modelled: the theorems that depend on arithmetic bound the magnitude of the
  coordinates so that no operation overflows.
\<close>

type_synonym float64 = real

definition round_half_even :: "real \<Rightarrow> int" where
  "round_half_even y =
     (let f = \<lfloor>y\<rfloor>; r = y - of_int f
      in if r < 1/2 then f else if 1/2 < r then f + 1 else if even f then f else f + 1)"

text \<open>\<open>expo x\<close> is the binary exponent of \<open>x \<noteq> 0\<close>: \<open>2 powi expo x \<le> \<bar>x\<bar> < 2 powi (expo x + 1)\<close>.\<close>

definition expo :: "real \<Rightarrow> int" where
  "expo x = (if 1 \<le> \<bar>x\<bar> then bitlen \<lfloor>\<bar>x\<bar>\<rfloor> - 1 else - bitlen (\<lceil>1 / \<bar>x\<bar>\<rceil> - 1))"

text \<open>
  The spacing of the doubles around \<open>x\<close> is \<open>2 powi quantum x\<close>: 53 significant bits,
  and never finer than the subnormal spacing \<open>2 powi (-1074)\<close>.
\<close>

definition quantum :: "real \<Rightarrow> int" where
  "quantum x = max (expo x - 52) (- 1074)"

definition rnd :: "real \<Rightarrow> float64" where
  "rnd x = (if x = 0 then 0
            else of_int (round_half_even (x / 2 powi quantum x)) * 2 powi quantum x)"

definition fadd :: "float64 \<Rightarrow> float64 \<Rightarrow> float64" where
  "fadd x y = rnd (x + y)"

definition fsub :: "float64 \<Rightarrow> float64 \<Rightarrow> float64" where
  "fsub x y = rnd (x - y)"

definition fmul :: "float64 \<Rightarrow> float64 \<Rightarrow> float64" where
  "fmul x y = rnd (x * y)"

definition fdiv :: "float64 \<Rightarrow> float64 \<Rightarrow> float64" where
  "fdiv x y = rnd (x / y)"

text \<open>\<^verbatim>\<open>math.hypot\<close>, taken as correctly rounded.\<close>

definition hypot :: "float64 \<Rightarrow> float64 \<Rightarrow> float64" where
  [code del]: "hypot x y = rnd (sqrt (x * x + y * y))"

text \<open>
  \<^verbatim>\<open>round(x, 4)\<close>: the exact value of \<open>x\<close> rounded to four decimals, ties to even, and
  the decimal result converted back to the nearest double.
\<close>

definition py_round4 :: "float64 \<Rightarrow> float64" where
  "py_round4 x = rnd (of_int (round_half_even (x * 10000)) / 10000)"

subsection \<open>Strings\<close>

text \<open>
  A \<open>string\<close> is a list of 8-bit characters; a character stands for the code point of
  the same number.  \<open>is_space\<close> lists the code points below 256 that \<^verbatim>\<open>str.strip()\<close>
  removes.
\<close>

definition is_space :: "char \<Rightarrow> bool" where
  "is_space c = (of_char c \<in> {9, 10, 11, 12, 13, 28, 29, 30, 31, 32, 133, 160 :: nat})"

text \<open>\<^verbatim>\<open>not content or content.strip() == ""\<close>\<close>

definition is_blank :: "string \<Rightarrow> bool" where
  "is_blank s = (s = [] \<or> list_all is_space s)"

definition startswith :: "string \<Rightarrow> string \<Rightarrow> bool" where
  "startswith s p = (take (length p) s = p)"

definition hexdigit :: "nat \<Rightarrow> char" where
  "hexdigit d = ''0123456789abcdef'' ! d"

fun hex_digits :: "nat \<Rightarrow> string" where
  "hex_digits n = (if n < 16 then [hexdigit n] else hex_digits (n div 16) @ [hexdigit (n mod 16)])"

declare hex_digits.simps [simp del]

text \<open>\<^verbatim>\<open>"{:02x}".format(n)\<close>: lower-case hexadecimal, zero-padded to width two, sign included.\<close>

definition format_02x :: "int \<Rightarrow> string" where
  "format_02x n =
     (if n < 0 then ''-'' @ hex_digits (nat (- n))
      else let d = hex_digits (nat n) in if length d < 2 then ''0'' @ d else d)"

text \<open>\<^verbatim>\<open>"#{:02x}{:02x}{:02x}".format(*rgb)\<close>\<close>

definition format_hex :: "int \<times> int \<times> int \<Rightarrow> string" where
  "format_hex rgb = (case rgb of (r, g, b) \<Rightarrow> ''#'' @ format_02x r @ format_02x g @ format_02x b)"

section \<open>Unit map\<close>

text \<open>
  \<^verbatim>\<open>DXF_UNITS\<close>.  The labels outside ASCII are written as their UTF-8 bytes.
\<close>

definition DXF_UNITS :: "(int \<times> string) list" where
  "DXF_UNITS =
     [(0, ''Unitless''), (1, ''in''), (2, ''ft''), (3, ''mi''), (4, ''mm''), (5, ''cm''),
      (6, ''m''), (7, ''km''), (8, [char_of (194::nat), char_of (181::nat)] @ ''in''),
      (9, ''mil''), (10, ''yd''), (11, [char_of (195::nat), char_of (133::nat)]),
      (12, ''nm''), (13, [char_of (194::nat), char_of (181::nat)] @ ''m''), (14, ''dm''),
      (15, ''dam''), (16, ''hm''), (17, ''Gm''), (18, ''AU''), (19, ''ly''), (20, ''pc'')]"

section \<open>Math helpers\<close>

type_synonym point = "float64 \<times> float64"

text \<open>
  \<^verbatim>\<open>calculate_length\<close>: the loop over \<open>i = 0 .. len(vertices) - 2\<close> with the accumulator
  \<open>total_length\<close>.
\<close>

definition length_step :: "point list \<Rightarrow> float64 \<Rightarrow> nat \<Rightarrow> float64" where
  "length_step vertices total_length i =
     (case (vertices ! i, vertices ! (i + 1)) of
        ((x1, y1), (x2, y2)) \<Rightarrow> fadd total_length (hypot (fsub x2 x1) (fsub y2 y1)))"

definition calculate_length :: "point list \<Rightarrow> float64" where
  "calculate_length vertices =
     (if vertices = [] \<or> length vertices < 2 then 0
      else py_round4 (foldl (length_step vertices) 0 [0 ..< length vertices - 1]))"

text \<open>
  \<^verbatim>\<open>calculate_area\<close>: the loop over \<open>i = 0 .. n - 1\<close> with \<open>j = (i + 1) % n\<close>; the
  accumulator is updated twice in each round.
\<close>

definition area_step :: "point list \<Rightarrow> float64 \<Rightarrow> nat \<Rightarrow> float64" where
  "area_step vertices area i =
     (let n = length vertices; j = (i + 1) mod n;
          area1 = fadd area (fmul (fst (vertices ! i)) (snd (vertices ! j)))
      in fsub area1 (fmul (fst (vertices ! j)) (snd (vertices ! i))))"

definition calculate_area :: "point list \<Rightarrow> float64" where
  "calculate_area vertices =
     (if vertices = [] \<or> length vertices < 3 then 0
      else py_round4 (fdiv \<bar>foldl (area_step vertices) 0 [0 ..< length vertices]\<bar> 2))"

section \<open>The source document\<close>

text \<open>
  The document model of the DXF parser is the input.  Reading an attribute of an entity
  (\<^verbatim>\<open>entity.dxf.layer\<close>, \<^verbatim>\<open>entity.dxf.insert.x\<close>, ...) either yields a value or raises;
  \<^verbatim>\<open>entity.dxf.get(key, default)\<close> and \<^verbatim>\<open>entity.dxf.hasattr(key)\<close> yield \<open>None\<close> for an
  attribute that is not set.  \<open>flattening\<close> is what \<^verbatim>\<open>path.make_path(entity)\<close> followed by
  \<^verbatim>\<open>flattening(FLATTEN_TOLERANCE)\<close> produces for the entity, reduced to the x and y of
  each vertex.
\<close>

record dxf_namespace =
  dxf_true_color :: "int option"
  dxf_color :: "py_error + int"
  dxf_linetype :: "string option"
  dxf_lineweight :: "int option"
  dxf_layer :: "py_error + string"
  dxf_handle :: "py_error + string"
  dxf_text :: "py_error + string"
  dxf_insert :: "py_error + point"
  dxf_rotation :: "py_error + float64"
  dxf_xscale :: "float64 option"
  dxf_yscale :: "float64 option"
  dxf_zscale :: "float64 option"
  dxf_name :: "py_error + string"

datatype raw_entity =
  RawEntity (dxftype: string) (dxf: dxf_namespace) (plain_text: "py_error + string")
    (attribs: "raw_entity list") (flattening: "py_error + point list")

record raw_layer =
  layer_name :: string
  layer_rgb :: "(int \<times> int \<times> int) option"
  layer_color :: int
  layer_is_frozen :: bool
  layer_is_locked :: bool

record raw_block =
  block_name :: string
  block_entities :: "raw_entity list"

record raw_document =
  header_insunits :: "int option"
  doc_layers :: "raw_layer list"
  doc_blocks :: "raw_block list"
  doc_modelspace :: "raw_entity list"

section \<open>The JSON tree\<close>

text \<open>
  \<open>common\<close> holds the six keys every entity dictionary starts with.  The three ways
  \<^verbatim>\<open>entity_to_json\<close> completes the dictionary are the three constructors of
  \<open>json_entity\<close>: the key \<^verbatim>\<open>"vertices"\<close> is present exactly in a \<open>GeometryEntity\<close>, the
  key \<^verbatim>\<open>"insert"\<close> exactly in a \<open>TextEntity\<close> and a \<open>BlockReferenceEntity\<close>, and the key
  \<^verbatim>\<open>"attributes"\<close> exactly in a \<open>BlockReferenceEntity\<close>.
\<close>

record common =
  j_type :: string
  j_layer :: string
  j_color_hex :: "string option"
  j_linetype :: string
  j_lineweight :: int
  j_id :: string

datatype json_entity =
    TextEntity (e_data: common) (e_text: string) (e_insert: point) (e_rotation: float64)
  | BlockReferenceEntity (e_data: common) (e_block_name: string) (e_insert: point)
      (e_rotation: float64) (e_scale: "float64 \<times> float64 \<times> float64")
      (e_attributes: "json_entity list")
  | GeometryEntity (e_data: common) (e_length_key: string) (e_length: float64)
      (e_area_key: string) (e_area: float64) (e_vertices: "point list") (e_vertex_count: nat)

text \<open>
  A Python dictionary keeps its keys in insertion order, and assigning to a key that is
  present replaces the value in place: an association list with \<open>AList.update\<close>.
\<close>

record layer_info =
  li_color :: string
  li_frozen :: bool
  li_locked :: bool

record cad_document =
  cd_filename :: string
  cd_units :: string
  cd_unit_code :: int
  cd_offset :: point
  cd_layers :: "(string \<times> layer_info) list"
  cd_blocks :: "(string \<times> json_entity list) list"
  cd_entities :: "json_entity list"

section \<open>DXF helpers\<close>

text \<open>
  \<^verbatim>\<open>int2rgb\<close> belongs to the parser library and is a parameter of the functions that
  use it.
\<close>

definition aci_to_hex :: "(int \<Rightarrow> int \<times> int \<times> int) \<Rightarrow> int \<Rightarrow> string" where
  "aci_to_hex int2rgb aci =
     (if aci < 0 \<or> 255 < aci then ''#000000'' else format_hex (int2rgb aci))"

definition get_entity_hex ::
  "(int \<Rightarrow> int \<times> int \<times> int) \<Rightarrow> raw_entity \<Rightarrow> py_error + string option" where
  "get_entity_hex int2rgb entity =
     (case dxf_true_color (dxf entity) of
        Some tc \<Rightarrow> Inr (Some (format_hex (int2rgb tc)))
      | None \<Rightarrow>
          (case dxf_color (dxf entity) of
             Inl err \<Rightarrow> Inl err
           | Inr c \<Rightarrow> if c = 256 then Inr None else Inr (Some (aci_to_hex int2rgb c))))"

text \<open>
  \<^verbatim>\<open>doc.layers.get(layer_name)\<close> raises \<^verbatim>\<open>ValueError\<close> for a name that is not in the
  layer table.
\<close>

definition get_layer_hex ::
  "(int \<Rightarrow> int \<times> int \<times> int) \<Rightarrow> raw_document \<Rightarrow> string \<Rightarrow> string" where
  "get_layer_hex int2rgb doc name =
     (case find (\<lambda>l. layer_name l = name) (doc_layers doc) of
        None \<Rightarrow> ''#000000''
      | Some layer \<Rightarrow>
          (case layer_rgb layer of
             Some rgb \<Rightarrow> format_hex rgb
           | None \<Rightarrow> aci_to_hex int2rgb (layer_color layer)))"

section \<open>Entity normalisation\<close>

definition text_types :: "string list" where
  "text_types = [''TEXT'', ''MTEXT'', ''ATTRIB'', ''ATTDEF'']"

text \<open>
  \<^verbatim>\<open>entity.dxf.rotation if hasattr(entity.dxf, 'rotation') else 0.0\<close>: \<^verbatim>\<open>hasattr\<close>
  answers \<^verbatim>\<open>False\<close> when the read raises \<^verbatim>\<open>AttributeError\<close> or an exception of a
  subclass of it, and lets every other exception through.  \<^verbatim>\<open>DXFAttributeError\<close> of the
  parser library is such a subclass.
\<close>

definition is_attribute_error :: "py_error \<Rightarrow> bool" where
  "is_attribute_error err = (err = AttributeError \<or> err = DXFAttributeError)"

definition rotation_or_default :: "raw_entity \<Rightarrow> py_error + float64" where
  "rotation_or_default entity =
     (case dxf_rotation (dxf entity) of
        Inl err \<Rightarrow> if is_attribute_error err then Inr 0 else Inl err
      | Inr r \<Rightarrow> Inr r)"

text \<open>
  The text branch; the whole of it is inside \<^verbatim>\<open>try: ... except: return None\<close>.
\<close>

definition text_to_json :: "common \<Rightarrow> raw_entity \<Rightarrow> json_entity option" where
  "text_to_json data entity =
     (case (if dxftype entity = ''MTEXT'' then plain_text entity else dxf_text (dxf entity)) of
        Inl _ \<Rightarrow> None
      | Inr content \<Rightarrow>
          (case dxf_insert (dxf entity) of
             Inl _ \<Rightarrow> None
           | Inr ins \<Rightarrow>
               (case rotation_or_default entity of
                  Inl _ \<Rightarrow> None
                | Inr rotation \<Rightarrow>
                    if is_blank content then None
                    else Some (TextEntity data content ins rotation))))"

text \<open>
  The geometry branch, also inside \<^verbatim>\<open>try: ... except: return None\<close>.
\<close>

definition geometry_to_json :: "string \<Rightarrow> common \<Rightarrow> raw_entity \<Rightarrow> json_entity option" where
  "geometry_to_json unit_name data entity =
     (case flattening entity of
        Inl _ \<Rightarrow> None
      | Inr v_list \<Rightarrow>
          if v_list = [] then None
          else Some (GeometryEntity data
                 (''length ('' @ unit_name @ '')'') (calculate_length v_list)
                 (''area ('' @ unit_name @ ''^2)'') (calculate_area v_list)
                 v_list (length v_list)))"

text \<open>
  \<^verbatim>\<open>entity_to_json\<close>.  The reads before the branches and the block-reference branch are
  outside any \<^verbatim>\<open>try\<close>: an exception there leaves the function.
\<close>

fun entity_to_json ::
    "(int \<Rightarrow> int \<times> int \<times> int) \<Rightarrow> string \<Rightarrow> raw_entity \<Rightarrow> py_error + json_entity option"
  and attribs_to_json ::
    "(int \<Rightarrow> int \<times> int \<times> int) \<Rightarrow> string \<Rightarrow> raw_entity list \<Rightarrow> py_error + json_entity list"
where
  "entity_to_json int2rgb unit_name (RawEntity ty ns ptext atts flat) =
     (let entity = RawEntity ty ns ptext atts flat in
      case get_entity_hex int2rgb entity of
        Inl err \<Rightarrow> Inl err
      | Inr hex_color \<Rightarrow>
         (let linetype = (case dxf_linetype ns of None \<Rightarrow> ''Continuous'' | Some l \<Rightarrow> l);
              lineweight = (case dxf_lineweight ns of None \<Rightarrow> - 1 | Some w \<Rightarrow> w)
          in
          case dxf_layer ns of
            Inl err \<Rightarrow> Inl err
          | Inr layer \<Rightarrow>
             (case dxf_handle ns of
                Inl err \<Rightarrow> Inl err
              | Inr handle \<Rightarrow>
                 (let data = \<lparr>j_type = ty, j_layer = layer, j_color_hex = hex_color,
                        j_linetype = linetype, j_lineweight = lineweight, j_id = handle\<rparr>
                  in
                  if ty \<in> set text_types then Inr (text_to_json data entity)
                  else if ty = ''INSERT'' then
                    (let sx = (case dxf_xscale ns of None \<Rightarrow> 1 | Some v \<Rightarrow> v);
                         sy = (case dxf_yscale ns of None \<Rightarrow> 1 | Some v \<Rightarrow> v);
                         sz = (case dxf_zscale ns of None \<Rightarrow> 1 | Some v \<Rightarrow> v)
                     in
                     case dxf_name ns of
                       Inl err \<Rightarrow> Inl err
                     | Inr name \<Rightarrow>
                        (case dxf_insert ns of
                           Inl err \<Rightarrow> Inl err
                         | Inr ins \<Rightarrow>
                            (case dxf_rotation ns of
                               Inl err \<Rightarrow> Inl err
                             | Inr rotation \<Rightarrow>
                                (case attribs_to_json int2rgb unit_name atts of
                                   Inl err \<Rightarrow> Inl err
                                 | Inr attributes \<Rightarrow>
                                     Inr (Some (BlockReferenceEntity data name ins rotation
                                            (sx, sy, sz) attributes))))))
                  else Inr (geometry_to_json unit_name data entity)))))"
| "attribs_to_json int2rgb unit_name [] = Inr []"
| "attribs_to_json int2rgb unit_name (attrib # rest) =
     (case entity_to_json int2rgb unit_name attrib of
        Inl err \<Rightarrow> Inl err
      | Inr attr_data \<Rightarrow>
          (case attribs_to_json int2rgb unit_name rest of
             Inl err \<Rightarrow> Inl err
           | Inr attr_rest \<Rightarrow>
               Inr ((case attr_data of None \<Rightarrow> [] | Some a \<Rightarrow> [a]) @ attr_rest)))"

text \<open>
  The loop \<^verbatim>\<open>for e in ...: e_data = entity_to_json(e, unit_name); if e_data: ....append(e_data)\<close>
  occurs three times in the source (attributes, block entities, modelspace) with the
  same body.
\<close>

definition entities_to_json ::
  "(int \<Rightarrow> int \<times> int \<times> int) \<Rightarrow> string \<Rightarrow> raw_entity list \<Rightarrow> py_error + json_entity list" where
  "entities_to_json int2rgb unit_name es = attribs_to_json int2rgb unit_name es"

section \<open>Main parser\<close>

subsection \<open>Layers and blocks\<close>

fun layers_to_json ::
  "(int \<Rightarrow> int \<times> int \<times> int) \<Rightarrow> raw_document \<Rightarrow> raw_layer list \<Rightarrow>
   (string \<times> layer_info) list \<Rightarrow> (string \<times> layer_info) list" where
  "layers_to_json int2rgb doc [] layers = layers"
| "layers_to_json int2rgb doc (layer # rest) layers =
     layers_to_json int2rgb doc rest
       (AList.update (layer_name layer)
          \<lparr>li_color = get_layer_hex int2rgb doc (layer_name layer),
           li_frozen = layer_is_frozen layer, li_locked = layer_is_locked layer\<rparr>
          layers)"

fun blocks_to_json ::
  "(int \<Rightarrow> int \<times> int \<times> int) \<Rightarrow> string \<Rightarrow> raw_block list \<Rightarrow>
   (string \<times> json_entity list) list \<Rightarrow> py_error + (string \<times> json_entity list) list" where
  "blocks_to_json int2rgb unit_name [] blocks = Inr blocks"
| "blocks_to_json int2rgb unit_name (block # rest) blocks =
     (if startswith (block_name block) ''*'' then blocks_to_json int2rgb unit_name rest blocks
      else
        case entities_to_json int2rgb unit_name (block_entities block) of
          Inl err \<Rightarrow> Inl err
        | Inr b_entities \<Rightarrow>
            blocks_to_json int2rgb unit_name rest
              (if b_entities \<noteq> [] then AList.update (block_name block) b_entities blocks
               else blocks))"

subsection \<open>Offset calculation\<close>

text \<open>
  The coordinates one entity contributes to \<^verbatim>\<open>all_x\<close> and \<^verbatim>\<open>all_y\<close>: its vertices if
  it has the key \<^verbatim>\<open>"vertices"\<close>, else its insertion point if it has the key
  \<^verbatim>\<open>"insert"\<close>.
\<close>

fun entity_coords :: "json_entity \<Rightarrow> point list" where
  "entity_coords (GeometryEntity data lk len ak ar vertices n) = vertices"
| "entity_coords (TextEntity data text ins rotation) = [ins]"
| "entity_coords (BlockReferenceEntity data name ins rotation scale attributes) = [ins]"

definition all_coords :: "json_entity list \<Rightarrow> point list" where
  "all_coords entities = concat (map entity_coords entities)"

text \<open>\<^verbatim>\<open>min\<close> and \<^verbatim>\<open>max\<close> of a list; both raise \<^verbatim>\<open>ValueError\<close> on the empty list.\<close>

fun py_min :: "float64 list \<Rightarrow> py_error + float64" where
  "py_min [] = Inl ValueError"
| "py_min (x # xs) = Inr (foldl (\<lambda>m item. if item < m then item else m) x xs)"

fun py_max :: "float64 list \<Rightarrow> py_error + float64" where
  "py_max [] = Inl ValueError"
| "py_max (x # xs) = Inr (foldl (\<lambda>m item. if m < item then item else m) x xs)"

text \<open>\<^verbatim>\<open>(min(v) + max(v)) / 2\<close>\<close>

definition midpoint :: "float64 list \<Rightarrow> py_error + float64" where
  "midpoint v =
     (case py_min v of
        Inl err \<Rightarrow> Inl err
      | Inr lo \<Rightarrow> (case py_max v of Inl err \<Rightarrow> Inl err | Inr hi \<Rightarrow> Inr (fdiv (fadd lo hi) 2)))"

definition compute_offset :: "json_entity list \<Rightarrow> py_error + point" where
  "compute_offset entities =
     (let all_x = map fst (all_coords entities); all_y = map snd (all_coords entities)
      in if all_x = [] then Inr (0, 0)
         else
           case midpoint all_x of
             Inl err \<Rightarrow> Inl err
           | Inr cx \<Rightarrow> (case midpoint all_y of Inl err \<Rightarrow> Inl err | Inr cy \<Rightarrow> Inr (- cx, - cy)))"

subsection \<open>Applying the offset\<close>

definition shift :: "point \<Rightarrow> point \<Rightarrow> point" where
  "shift off p = (fadd (fst p) (fst off), fadd (snd p) (snd off))"

text \<open>
  \<^verbatim>\<open>attr["insert"][0] += offset["x"]\<close> for one nested attribute; a dictionary without
  the key \<^verbatim>\<open>"insert"\<close> raises \<^verbatim>\<open>KeyError\<close>.
\<close>

fun shift_attribute :: "point \<Rightarrow> json_entity \<Rightarrow> py_error + json_entity" where
  "shift_attribute off (TextEntity data text ins rotation) =
     Inr (TextEntity data text (shift off ins) rotation)"
| "shift_attribute off (BlockReferenceEntity data name ins rotation scale attributes) =
     Inr (BlockReferenceEntity data name (shift off ins) rotation scale attributes)"
| "shift_attribute off (GeometryEntity data lk len ak ar vertices n) = Inl KeyError"

fun shift_attributes :: "point \<Rightarrow> json_entity list \<Rightarrow> py_error + json_entity list" where
  "shift_attributes off [] = Inr []"
| "shift_attributes off (attr # rest) =
     (case shift_attribute off attr of
        Inl err \<Rightarrow> Inl err
      | Inr attr' \<Rightarrow>
          (case shift_attributes off rest of
             Inl err \<Rightarrow> Inl err
           | Inr rest' \<Rightarrow> Inr (attr' # rest')))"

fun shift_entity :: "point \<Rightarrow> json_entity \<Rightarrow> py_error + json_entity" where
  "shift_entity off (GeometryEntity data lk len ak ar vertices n) =
     Inr (GeometryEntity data lk len ak ar (map (shift off) vertices) n)"
| "shift_entity off (TextEntity data text ins rotation) =
     Inr (TextEntity data text (shift off ins) rotation)"
| "shift_entity off (BlockReferenceEntity data name ins rotation scale attributes) =
     (case shift_attributes off attributes of
        Inl err \<Rightarrow> Inl err
      | Inr attributes' \<Rightarrow>
          Inr (BlockReferenceEntity data name (shift off ins) rotation scale attributes'))"

fun apply_offset :: "point \<Rightarrow> json_entity list \<Rightarrow> py_error + json_entity list" where
  "apply_offset off [] = Inr []"
| "apply_offset off (e # rest) =
     (case shift_entity off e of
        Inl err \<Rightarrow> Inl err
      | Inr e' \<Rightarrow>
          (case apply_offset off rest of
             Inl err \<Rightarrow> Inl err
           | Inr rest' \<Rightarrow> Inr (e' # rest')))"

subsection \<open>\<^verbatim>\<open>parse_dxf\<close>\<close>

text \<open>
  \<open>readfile\<close> is the outcome of \<^verbatim>\<open>ezdxf.readfile(filepath)\<close> and \<open>name\<close> is
  \<^verbatim>\<open>filepath.name\<close>.  A file that cannot be read makes the function return \<^verbatim>\<open>None\<close>;
  an exception raised later leaves the function.
\<close>

definition parse_dxf ::
  "(int \<Rightarrow> int \<times> int \<times> int) \<Rightarrow> string \<Rightarrow> py_error + raw_document \<Rightarrow>
   py_error + cad_document option" where
  "parse_dxf int2rgb name readfile =
     (case readfile of
        Inl _ \<Rightarrow> Inr None
      | Inr doc \<Rightarrow>
         (let code = (case header_insunits doc of None \<Rightarrow> 0 | Some c \<Rightarrow> c);
              unit_name = (case map_of DXF_UNITS code of None \<Rightarrow> ''Unitless'' | Some u \<Rightarrow> u);
              layers = layers_to_json int2rgb doc (doc_layers doc) []
          in
          case blocks_to_json int2rgb unit_name (doc_blocks doc) [] of
            Inl err \<Rightarrow> Inl err
          | Inr blocks \<Rightarrow>
             (case entities_to_json int2rgb unit_name (doc_modelspace doc) of
                Inl err \<Rightarrow> Inl err
              | Inr entities \<Rightarrow>
                 (case compute_offset entities of
                    Inl err \<Rightarrow> Inl err
                  | Inr off \<Rightarrow>
                     (case apply_offset off entities of
                        Inl err \<Rightarrow> Inl err
                      | Inr entities' \<Rightarrow>
                          Inr (Some \<lparr>cd_filename = name, cd_units = unit_name,
                                     cd_unit_code = code, cd_offset = off,
                                     cd_layers = layers, cd_blocks = blocks,
                                     cd_entities = entities'\<rparr>))))))"

section \<open>Example inputs\<close>

text \<open>
  The library function \<^verbatim>\<open>int2rgb\<close> of \<^verbatim>\<open>ezdxf.colors\<close>, with which the converter's
  functions are called: it splits a 24-bit colour value into its red, green and blue
  bytes, \<^verbatim>\<open>(value >> 16) & 0xff, (value >> 8) & 0xff, value & 0xff\<close>.
\<close>

definition int2rgb_bytes :: "int \<Rightarrow> int \<times> int \<times> int" where
  "int2rgb_bytes v = ((v div 65536) mod 256, (v div 256) mod 256, v mod 256)"

text \<open>
  An attribute namespace with the common attributes readable and nothing else set, and
  two entities built on it: a single-line text, and an entity whose indexed colour
  cannot be read.
\<close>

definition plain_ns :: dxf_namespace where
  "plain_ns = \<lparr>dxf_true_color = None, dxf_color = Inr 256, dxf_linetype = None,
     dxf_lineweight = None, dxf_layer = Inr ''0'', dxf_handle = Inr ''1F'',
     dxf_text = Inl DXFAttributeError, dxf_insert = Inl DXFAttributeError,
     dxf_rotation = Inl DXFAttributeError, dxf_xscale = None, dxf_yscale = None,
     dxf_zscale = None, dxf_name = Inl DXFAttributeError\<rparr>"

definition text_entity :: "string \<Rightarrow> point \<Rightarrow> raw_entity" where
  "text_entity content ins =
     RawEntity ''TEXT''
       (plain_ns\<lparr>dxf_text := Inr content, dxf_insert := Inr ins, dxf_rotation := Inr 0\<rparr>)
       (Inl AttributeError) [] (Inl TypeError)"

definition unreadable_entity :: raw_entity where
  "unreadable_entity =
     RawEntity ''UNSUPPORTED'' (plain_ns\<lparr>dxf_color := Inl DXFAttributeError\<rparr>)
       (Inl AttributeError) [] (Inl TypeError)"

definition ten_entity_document :: raw_document where
  "ten_entity_document =
     \<lparr>header_insunits = Some 4, doc_layers = [], doc_blocks = [],
      doc_modelspace =
        replicate 4 (text_entity ''A-101'' (10, 5)) @ [unreadable_entity] @
        replicate 5 (text_entity ''A-101'' (10, 5))\<rparr>"

text \<open>
  A drawing with a layer, three block definitions (an anonymous one, one whose only text
  is blank, a title block) and a modelspace holding a block reference with one attribute
  and a text.  \<open>sample_result\<close> is the document \<open>parse_dxf\<close> makes of it.
\<close>

definition insert_entity :: "string \<Rightarrow> point \<Rightarrow> raw_entity list \<Rightarrow> raw_entity" where
  "insert_entity name ins atts =
     RawEntity ''INSERT''
       (plain_ns\<lparr>dxf_name := Inr name, dxf_insert := Inr ins, dxf_rotation := Inr 0\<rparr>)
       (Inl AttributeError) atts (Inl TypeError)"

definition sample_document :: raw_document where
  "sample_document =
     \<lparr>header_insunits = Some 4,
      doc_layers =
        [\<lparr>layer_name = ''0'', layer_rgb = None, layer_color = 7,
          layer_is_frozen = False, layer_is_locked = False\<rparr>],
      doc_blocks =
        [\<lparr>block_name = ''*U1'', block_entities = [text_entity ''hidden'' (1, 1)]\<rparr>,
         \<lparr>block_name = ''EMPTY'', block_entities = [text_entity ''  '' (0, 0)]\<rparr>,
         \<lparr>block_name = ''TITLE'', block_entities = [text_entity ''A-101'' (10, 5)]\<rparr>],
      doc_modelspace =
        [insert_entity ''*U1'' (2, 4) [text_entity ''TAG'' (2, 6)],
         text_entity ''A-101'' (10, 5)]\<rparr>"

definition plain_data :: "string \<Rightarrow> common" where
  "plain_data ty =
     \<lparr>j_type = ty, j_layer = ''0'', j_color_hex = None, j_linetype = ''Continuous'',
      j_lineweight = - 1, j_id = ''1F''\<rparr>"

definition sample_result :: cad_document where
  "sample_result =
     \<lparr>cd_filename = ''plan.dxf'', cd_units = ''mm'', cd_unit_code = 4,
      cd_offset = (- 6, - 9 / 2),
      cd_layers = [(''0'', \<lparr>li_color = ''#000007'', li_frozen = False, li_locked = False\<rparr>)],
      cd_blocks = [(''TITLE'', [TextEntity (plain_data ''TEXT'') ''A-101'' (10, 5) 0])],
      cd_entities =
        [BlockReferenceEntity (plain_data ''INSERT'') ''*U1'' (- 4, - 1 / 2) 0 (1, 1, 1)
           [TextEntity (plain_data ''TEXT'') ''TAG'' (- 4, 3 / 2) 0],
         TextEntity (plain_data ''TEXT'') ''A-101'' (4, 1 / 2) 0]\<rparr>"

text \<open>
  An entity with the indexed colour \<open>aci\<close> and no true colour.
\<close>

definition indexed_entity :: "int \<Rightarrow> raw_entity" where
  "indexed_entity aci =
     RawEntity ''LINE'' (plain_ns\<lparr>dxf_color := Inr aci\<rparr>) (Inl AttributeError) []
       (Inr [(0, 0), (1, 0)])"

text \<open>
  A drawing with an open polyline through three points, in the modelspace and in a block
  definition, and a polyline without a segment, which flattens to nothing; and the
  document made of it.
\<close>

definition polyline_entity :: "point list \<Rightarrow> raw_entity" where
  "polyline_entity vs = RawEntity ''LWPOLYLINE'' plain_ns (Inl AttributeError) [] (Inr vs)"

definition polyline_document :: raw_document where
  "polyline_document =
     \<lparr>header_insunits = Some 4, doc_layers = [],
      doc_blocks =
        [\<lparr>block_name = ''FRAME'',
          block_entities = [polyline_entity [(0, 0), (3, 0), (3, 4)]]\<rparr>],
      doc_modelspace = [polyline_entity [(0, 0), (3, 0), (3, 4)], polyline_entity []]\<rparr>"

definition polyline_result :: cad_document where
  "polyline_result =
     \<lparr>cd_filename = ''plan.dxf'', cd_units = ''mm'', cd_unit_code = 4,
      cd_offset = (- (3 / 2), - 2), cd_layers = [],
      cd_blocks =
        [(''FRAME'',
          [GeometryEntity (plain_data ''LWPOLYLINE'') ''length (mm)'' 7 ''area (mm^2)'' 6
             [(0, 0), (3, 0), (3, 4)] 3])],
      cd_entities =
        [GeometryEntity (plain_data ''LWPOLYLINE'') ''length (mm)'' 7 ''area (mm^2)'' 6
           [(- (3 / 2), - 2), (3 / 2, - 2), (3 / 2, 2)] 3]\<rparr>"

text \<open>
  Two texts whose insertion points are one unit in the last place apart, before and
  after the offset pass; and a drawing with a text very close to the origin and one at
  \<open>x = 2\<close>, with the document made of it.
\<close>

definition two_texts :: "json_entity list" where
  "two_texts =
     [TextEntity (plain_data ''TEXT'') ''A'' (1, 0) 0,
      TextEntity (plain_data ''TEXT'') ''B'' (1 + 1 / 2 ^ 52, 0) 0]"

definition two_texts_shifted :: "json_entity list" where
  "two_texts_shifted =
     [TextEntity (plain_data ''TEXT'') ''A'' (0, 0) 0,
      TextEntity (plain_data ''TEXT'') ''B'' (1 / 2 ^ 52, 0) 0]"

definition absorbing_document :: raw_document where
  "absorbing_document =
     \<lparr>header_insunits = None, doc_layers = [], doc_blocks = [],
      doc_modelspace = [text_entity ''A'' (1 / 2 ^ 60, 0), text_entity ''B'' (2, 0)]\<rparr>"

definition absorbing_result :: cad_document where
  "absorbing_result =
     \<lparr>cd_filename = ''plan.dxf'', cd_units = ''Unitless'', cd_unit_code = 0,
      cd_offset = (- 1, 0), cd_layers = [], cd_blocks = [],
      cd_entities =
        [TextEntity (plain_data ''TEXT'') ''A'' (- 1, 0) 0,
         TextEntity (plain_data ''TEXT'') ''B'' (1, 0) 0]\<rparr>"

section \<open>Notions used in the statements\<close>

subsection \<open>Length and area as the specification words them\<close>

text \<open>
  The length of a vertex sequence: the distances between consecutive points, summed from
  the left and rounded to four decimals.  The area: the shoelace sum over the edges of
  the sequence closed by an edge from its last point to its first, in absolute value,
  halved and rounded.  All arithmetic is in doubles, as the result type \<^verbatim>\<open>float64\<close> of
  the specification says.
\<close>

definition segment_length :: "point \<times> point \<Rightarrow> float64" where
  "segment_length seg = (case seg of ((x1, y1), (x2, y2)) \<Rightarrow> hypot (fsub x2 x1) (fsub y2 y1))"

definition path_length :: "point list \<Rightarrow> float64" where
  "path_length V =
     (if length V < 2 then 0
      else py_round4 (foldl fadd 0 (map segment_length (zip V (tl V)))))"

definition shoelace_step :: "float64 \<Rightarrow> point \<times> point \<Rightarrow> float64" where
  "shoelace_step acc seg =
     (case seg of ((xi, yi), (xj, yj)) \<Rightarrow> fsub (fadd acc (fmul xi yj)) (fmul xj yi))"

definition polygon_area :: "point list \<Rightarrow> float64" where
  "polygon_area V =
     (if length V < 3 then 0
      else py_round4 (fdiv \<bar>foldl shoelace_step 0 (zip V (tl V @ [hd V]))\<bar> 2))"

subsection \<open>What the flattening of a path may be\<close>

text \<open>
  \<^verbatim>\<open>flattening\<close> of the parser library yields no vertex for a path without segments,
  and otherwise the start point of the path followed by at least one vertex for every
  segment.  So the flattening of an entity, when it does not raise, is never a single
  vertex.
\<close>

definition path_flattening_ok :: "raw_entity \<Rightarrow> bool" where
  "path_flattening_ok entity =
     (case flattening entity of Inl err \<Rightarrow> True | Inr vs \<Rightarrow> length vs \<noteq> 1)"

subsection \<open>What the offset pass may write\<close>

text \<open>
  \<open>erase_coords\<close> overwrites with zero every coordinate the offset pass may write: the
  vertices of a geometry entity, the insertion point of a text or a block reference, and
  the insertion point of each attribute of a block reference.  Two entities with the same
  erasure agree on everything else.  \<open>written_coords\<close> lists those coordinates in the
  order the pass visits them.
\<close>

fun erase_insert :: "json_entity \<Rightarrow> json_entity" where
  "erase_insert (TextEntity data text ins rotation) = TextEntity data text (0, 0) rotation"
| "erase_insert (BlockReferenceEntity data name ins rotation scale attributes) =
     BlockReferenceEntity data name (0, 0) rotation scale attributes"
| "erase_insert (GeometryEntity data lk len ak ar vertices n) =
     GeometryEntity data lk len ak ar vertices n"

fun erase_coords :: "json_entity \<Rightarrow> json_entity" where
  "erase_coords (GeometryEntity data lk len ak ar vertices n) =
     GeometryEntity data lk len ak ar (map (\<lambda>_. (0, 0)) vertices) n"
| "erase_coords (TextEntity data text ins rotation) = TextEntity data text (0, 0) rotation"
| "erase_coords (BlockReferenceEntity data name ins rotation scale attributes) =
     BlockReferenceEntity data name (0, 0) rotation scale (map erase_insert attributes)"

fun attribute_insert :: "json_entity \<Rightarrow> point list" where
  "attribute_insert (TextEntity data text ins rotation) = [ins]"
| "attribute_insert (BlockReferenceEntity data name ins rotation scale attributes) = [ins]"
| "attribute_insert (GeometryEntity data lk len ak ar vertices n) = []"

fun written_coords :: "json_entity \<Rightarrow> point list" where
  "written_coords (GeometryEntity data lk len ak ar vertices n) = vertices"
| "written_coords (TextEntity data text ins rotation) = [ins]"
| "written_coords (BlockReferenceEntity data name ins rotation scale attributes) =
     ins # concat (map attribute_insert attributes)"

section \<open>Rounding\<close>

text \<open>
  The distance between a real number and the double it rounds to: half a unit in the last
  place in the normal range, half the subnormal spacing below it.
\<close>

lemma round_half_even_error: "\<bar>of_int (round_half_even y) - y\<bar> \<le> 1/2"
  unfolding round_half_even_def Let_def
  by (auto simp: abs_le_iff)

lemma expo_lower:
  assumes "x \<noteq> 0" shows "2 powi expo x \<le> \<bar>x\<bar>"
proof (cases "1 \<le> \<bar>x\<bar>")
  case True
  define n where "n = \<lfloor>\<bar>x\<bar>\<rfloor>"
  have n: "0 < n" using True unfolding n_def by linarith
  have "2 ^ nat (bitlen n - 1) \<le> n" using bitlen_bounds[OF n] by simp
  then have "(2::real) ^ nat (bitlen n - 1) \<le> of_int n"
    by (metis of_int_le_iff of_int_numeral of_int_power)
  also have "\<dots> \<le> \<bar>x\<bar>" unfolding n_def by linarith
  finally have "(2::real) ^ nat (bitlen n - 1) \<le> \<bar>x\<bar>" .
  moreover have "0 \<le> bitlen n - 1"
    using n bitlen_nonneg[of n] bitlen_eq_zero_iff[of n] by linarith
  ultimately show ?thesis using True
    by (simp add: expo_def n_def power_int_def)
next
  case False
  define y where "y = 1 / \<bar>x\<bar>"
  have y: "1 < y" using False assms unfolding y_def by simp
  define m where "m = \<lceil>y\<rceil> - 1"
  have m: "0 < m" using y unfolding m_def by linarith
  have "m < 2 ^ nat (bitlen m)" using bitlen_bounds[OF m] by simp
  then have "m + 1 \<le> 2 ^ nat (bitlen m)" by simp
  then have "of_int (m + 1) \<le> (2::real) ^ nat (bitlen m)"
    by (metis of_int_le_iff of_int_numeral of_int_power)
  moreover have "y \<le> of_int (m + 1)" unfolding m_def by simp
  ultimately have "y \<le> (2::real) ^ nat (bitlen m)" by linarith
  then have "1 / \<bar>x\<bar> \<le> (2::real) ^ nat (bitlen m)" by (simp add: y_def)
  then have *: "1 / (2::real) ^ nat (bitlen m) \<le> \<bar>x\<bar>" using assms
    by (simp add: field_simps)
  have "0 \<le> bitlen m" by (rule bitlen_nonneg)
  have "(2::real) powi (- bitlen m) = 1 / 2 ^ nat (bitlen m)"
    using \<open>0 \<le> bitlen m\<close> by (simp add: power_int_minus power_int_def field_simps)
  with * have "2 powi (- bitlen m) \<le> \<bar>x\<bar>"
    by simp
  then show ?thesis using False
    by (simp add: expo_def m_def y_def)
qed

lemma expo_upper:
  assumes "x \<noteq> 0" shows "\<bar>x\<bar> < 2 powi (expo x + 1)"
proof (cases "1 \<le> \<bar>x\<bar>")
  case True
  define n where "n = \<lfloor>\<bar>x\<bar>\<rfloor>"
  have n: "0 < n" using True unfolding n_def by linarith
  have "n < 2 ^ nat (bitlen n)" using bitlen_bounds[OF n] by simp
  then have "n + 1 \<le> 2 ^ nat (bitlen n)" by simp
  then have "of_int (n + 1) \<le> (2::real) ^ nat (bitlen n)"
    by (metis of_int_le_iff of_int_numeral of_int_power)
  moreover have "\<bar>x\<bar> < of_int (n + 1)" unfolding n_def by linarith
  ultimately have "\<bar>x\<bar> < (2::real) ^ nat (bitlen n)" by linarith
  moreover have "0 \<le> bitlen n" by (rule bitlen_nonneg)
  ultimately show ?thesis using True
    by (simp add: expo_def n_def power_int_def)
next
  case False
  define y where "y = 1 / \<bar>x\<bar>"
  have y: "1 < y" using False assms unfolding y_def by simp
  define m where "m = \<lceil>y\<rceil> - 1"
  have m: "0 < m" using y unfolding m_def by linarith
  have b: "0 < bitlen m" using m bitlen_nonneg[of m] bitlen_eq_zero_iff[of m] by linarith
  have "2 ^ nat (bitlen m - 1) \<le> m" using bitlen_bounds[OF m] by simp
  then have "(2::real) ^ nat (bitlen m - 1) \<le> of_int m"
    by (metis of_int_le_iff of_int_numeral of_int_power)
  moreover have "of_int m < y" unfolding m_def by linarith
  ultimately have "(2::real) ^ nat (bitlen m - 1) < 1 / \<bar>x\<bar>" unfolding y_def by linarith
  then have *: "\<bar>x\<bar> < 1 / (2::real) ^ nat (bitlen m - 1)" using assms
    by (simp add: field_simps)
  have "(2::real) powi (- bitlen m + 1) = 1 / 2 ^ nat (bitlen m - 1)"
  proof -
    have "- bitlen m + 1 = - (bitlen m - 1)" by simp
    then have "(2::real) powi (- bitlen m + 1) = inverse (2 powi (bitlen m - 1))"
      by (simp only: power_int_minus)
    also have "\<dots> = 1 / 2 ^ nat (bitlen m - 1)" using b by (simp add: power_int_def field_simps)
    finally show ?thesis .
  qed
  with * have "\<bar>x\<bar> < 2 powi (- bitlen m + 1)" by simp
  then show ?thesis using False by (simp add: expo_def m_def y_def)
qed

lemma expo_eqI:
  assumes "2 powi e \<le> \<bar>x\<bar>" "\<bar>x\<bar> < 2 powi (e + 1)"
  shows "expo x = e"
proof -
  have "(0::real) < 2 powi e" by simp
  with assms(1) have "0 < \<bar>x\<bar>" by linarith
  then have x: "x \<noteq> 0" by auto
  have lt1: "(2::real) powi expo x < 2 powi (e + 1)"
    using expo_lower[OF x] assms(2) by linarith
  have 1: "expo x < e + 1"
  proof (rule ccontr)
    assume "\<not> expo x < e + 1"
    then have "e + 1 \<le> expo x" by simp
    then have "(2::real) powi (e + 1) \<le> 2 powi expo x"
      by (intro power_int_increasing) simp_all
    with lt1 show False by linarith
  qed
  have lt2: "(2::real) powi e < 2 powi (expo x + 1)"
    using expo_upper[OF x] assms(1) by linarith
  have 2: "e < expo x + 1"
  proof (rule ccontr)
    assume "\<not> e < expo x + 1"
    then have "expo x + 1 \<le> e" by simp
    then have "(2::real) powi (expo x + 1) \<le> 2 powi e"
      by (intro power_int_increasing) simp_all
    with lt2 show False by linarith
  qed
  from 1 2 show ?thesis by linarith
qed

text \<open>
  A number that is a whole multiple of the spacing around it is a double, and rounding
  leaves it alone.  Below the normal range the spacing stays \<open>2 powi (-1074)\<close>: one and a
  half subnormal units round to two, the even neighbour.
\<close>

lemma rnd_fixed:
  assumes "x = of_int m * 2 powi quantum x"
  shows "rnd x = x"
proof -
  have "x / 2 powi quantum x = of_int m"
    using assms by (metis nonzero_eq_divide_eq power_int_eq_0_iff zero_neq_numeral)
  moreover have "round_half_even (of_int m) = m" by (simp add: round_half_even_def)
  ultimately show ?thesis using assms by (simp add: rnd_def)
qed

lemma rnd_subnormal_tie: "rnd (3 / 2 ^ 1075) = 2 / 2 ^ 1074"
proof -
  have p: "(2::real) powi (- 1074) = 1 / 2 ^ 1074" "(2::real) powi (- 1074 + 1) = 1 / 2 ^ 1073"
    by (simp_all add: power_int_def power_one_over)
  have e: "expo (3 / 2 ^ 1075) = - 1074"
    by (rule expo_eqI) (simp_all add: p)
  have q: "quantum (3 / 2 ^ 1075) = - 1074"
    unfolding quantum_def e by simp
  have r: "round_half_even (3 / 2) = 2" by (simp add: round_half_even_def)
  have h: "(3::real) / 2 ^ 1075 / 2 powi (- 1074) = 3 / 2" by (simp add: p)
  have "rnd (3 / 2 ^ 1075) = of_int (round_half_even (3 / 2)) * 2 powi (- 1074)"
    unfolding rnd_def q h by simp
  then show ?thesis by (simp add: r p)
qed

lemma rnd_error: "\<bar>rnd x - x\<bar> \<le> \<bar>x\<bar> / 2 ^ 53 + 1 / 2 ^ 1075"
proof (cases "x = 0")
  case True then show ?thesis by (simp add: rnd_def)
next
  case False
  define q where "q = quantum x"
  define s where "s = (2::real) powi q"
  have s: "0 < s" unfolding s_def by simp
  have "\<bar>of_int (round_half_even (x / s)) - x / s\<bar> \<le> 1/2" by (rule round_half_even_error)
  then have "\<bar>of_int (round_half_even (x / s)) - x / s\<bar> * s \<le> 1/2 * s"
    using s by (simp add: mult_right_mono)
  moreover have "\<bar>of_int (round_half_even (x / s)) - x / s\<bar> * s = \<bar>of_int (round_half_even (x / s)) * s - x\<bar>"
  proof -
    have "\<bar>of_int (round_half_even (x / s)) - x / s\<bar> * s = \<bar>(of_int (round_half_even (x / s)) - x / s) * s\<bar>"
      using s by (simp add: abs_mult)
    also have "(of_int (round_half_even (x / s)) - x / s) * s = of_int (round_half_even (x / s)) * s - x"
      using s by (simp add: field_simps)
    finally show ?thesis .
  qed
  ultimately have "\<bar>of_int (round_half_even (x / s)) * s - x\<bar> \<le> s / 2" by simp
  moreover have "rnd x = of_int (round_half_even (x / s)) * s"
    using False by (simp add: rnd_def q_def s_def)
  ultimately have e: "\<bar>rnd x - x\<bar> \<le> s / 2" by simp
  have "s / 2 \<le> \<bar>x\<bar> / 2 ^ 53 + 1 / 2 ^ 1075"
  proof (cases "expo x - 52 \<le> - 1074")
    case True
    then have "q = - 1074" by (simp add: q_def quantum_def)
    then have "s / 2 = 1 / 2 ^ 1075" by (simp add: s_def power_int_def field_simps)
    then show ?thesis by simp
  next
    case False
    then have "q = expo x - 52" by (simp add: q_def quantum_def)
    then have "s = 2 powi expo x / 2 ^ 52" by (simp add: s_def power_int_diff)
    then have "s / 2 = 2 powi expo x / 2 ^ 53" by simp
    also have "\<dots> \<le> \<bar>x\<bar> / 2 ^ 53" using expo_lower[OF \<open>x \<noteq> 0\<close>] by (simp add: divide_right_mono)
    finally show ?thesis by simp
  qed
  with e show ?thesis by linarith
qed

section \<open>Recentring in doubles\<close>

lemma Min_image_near:
  fixes f :: "real \<Rightarrow> real"
  assumes "finite X" "X \<noteq> {}" "\<forall>x\<in>X. \<bar>f x - (x + c)\<bar> \<le> E"
  shows "\<bar>Min (f ` X) - (Min X + c)\<bar> \<le> E"
proof -
  have fin: "finite (f ` X)" "f ` X \<noteq> {}" using assms by auto
  have "Min X \<in> X" using assms by simp
  then have "Min (f ` X) \<le> f (Min X)" using fin by simp
  moreover have "f (Min X) \<le> Min X + c + E" using assms(3) \<open>Min X \<in> X\<close> by (auto simp: abs_le_iff)
  ultimately have up: "Min (f ` X) \<le> Min X + c + E" by linarith
  obtain x where x: "x \<in> X" "Min (f ` X) = f x" using Min_in[OF fin] by auto
  have "Min X \<le> x" using x(1) assms by simp
  moreover have "x + c - E \<le> f x" using assms(3) x(1) by (auto simp: abs_le_iff)
  ultimately have "Min X + c - E \<le> Min (f ` X)" using x(2) by linarith
  with up show ?thesis by (simp add: abs_le_iff)
qed

lemma Max_image_near:
  fixes f :: "real \<Rightarrow> real"
  assumes "finite X" "X \<noteq> {}" "\<forall>x\<in>X. \<bar>f x - (x + c)\<bar> \<le> E"
  shows "\<bar>Max (f ` X) - (Max X + c)\<bar> \<le> E"
proof -
  have fin: "finite (f ` X)" "f ` X \<noteq> {}" using assms by auto
  have "Max X \<in> X" using assms by simp
  then have "f (Max X) \<le> Max (f ` X)" using fin by simp
  moreover have "Max X + c - E \<le> f (Max X)" using assms(3) \<open>Max X \<in> X\<close> by (auto simp: abs_le_iff)
  ultimately have lo: "Max X + c - E \<le> Max (f ` X)" by linarith
  obtain x where x: "x \<in> X" "Max (f ` X) = f x" using Max_in[OF fin] by auto
  have "x \<le> Max X" using x(1) assms by simp
  moreover have "f x \<le> x + c + E" using assms(3) x(1) by (auto simp: abs_le_iff)
  ultimately have "Max (f ` X) \<le> Max X + c + E" using x(2) by linarith
  with lo show ?thesis by (simp add: abs_le_iff)
qed

lemma rnd_error_mult:
  "\<bar>rnd x - x\<bar> \<le> \<bar>x\<bar> * (1 / 2 ^ 53) + 1 / 2 ^ 1075"
  using rnd_error[of x] by simp

text \<open>The midpoint computed in doubles, against the exact one.\<close>

lemma midpoint_error:
  fixes lo hi :: real
  assumes "\<bar>lo\<bar> \<le> B" "\<bar>hi\<bar> \<le> B"
  defines "c \<equiv> fdiv (fadd lo hi) 2"
  shows "\<bar>lo + hi - 2 * c\<bar> \<le> 5 * B / 2 ^ 53 + 4 / 2 ^ 1075"
    and "\<bar>c\<bar> \<le> 2 * B + 2 / 2 ^ 1075"
proof -
  define eta :: real where "eta = 1 / 2 ^ 1075"
  define u :: real where "u = 1 / 2 ^ 53"
  have eta: "0 < eta" by (simp add: eta_def)
  have u: "0 < u" "u \<le> 1 / 4" by (simp_all add: u_def)
  have B: "0 \<le> B" using assms(1) by linarith
  have Bu: "0 \<le> B * u" "B * u \<le> B / 4" using B u
    by (simp_all add: mult_left_mono[of u "1/4" B, simplified])
  have eu: "0 \<le> eta * u" "eta * u \<le> eta / 4" using eta u
    by (simp_all add: mult_left_mono[of u "1/4" eta, simplified])
  define s where "s = fadd lo hi"
  have s1: "\<bar>s - (lo + hi)\<bar> \<le> \<bar>lo + hi\<bar> * u + eta"
    unfolding s_def fadd_def eta_def u_def by (rule rnd_error_mult)
  have lh: "\<bar>lo + hi\<bar> \<le> 2 * B" using assms(1,2) by linarith
  have "\<bar>lo + hi\<bar> * u \<le> 2 * B * u" using lh u by (simp add: mult_right_mono)
  with s1 have s2: "\<bar>s - (lo + hi)\<bar> \<le> 2 * (B * u) + eta" by linarith
  have s3: "\<bar>s\<bar> \<le> 3 * B + eta" using s2 lh Bu by linarith
  have c1: "\<bar>c - s / 2\<bar> \<le> \<bar>s / 2\<bar> * u + eta"
    unfolding c_def fdiv_def s_def[symmetric] eta_def u_def by (rule rnd_error_mult)
  have "\<bar>s / 2\<bar> \<le> (3 * B + eta) / 2" using s3 by simp
  then have "\<bar>s / 2\<bar> * u \<le> (3 * B + eta) / 2 * u" using u by (simp add: mult_right_mono)
  also have "\<dots> = 3 / 2 * (B * u) + 1 / 2 * (eta * u)" by (simp add: algebra_simps)
  finally have c2: "\<bar>c - s / 2\<bar> \<le> 3 / 2 * (B * u) + 1 / 2 * (eta * u) + eta"
    using c1 by linarith
  have "\<bar>lo + hi - 2 * c\<bar> \<le> 5 * (B * u) + 4 * eta"
    using s2 c2 eu by linarith
  then show "\<bar>lo + hi - 2 * c\<bar> \<le> 5 * B / 2 ^ 53 + 4 / 2 ^ 1075"
    by (simp add: eta_def u_def)
  have "\<bar>c\<bar> \<le> 2 * B + 2 * eta" using c2 s3 Bu eu by linarith
  then show "\<bar>c\<bar> \<le> 2 * B + 2 / 2 ^ 1075" by (simp add: eta_def)
qed

lemma shifted_error:
  fixes x c :: real
  assumes "\<bar>x\<bar> \<le> B" "\<bar>c\<bar> \<le> 2 * B + 2 / 2 ^ 1075"
  shows "\<bar>fadd x (- c) - (x + (- c))\<bar> \<le> 3 * B / 2 ^ 53 + 2 / 2 ^ 1075"
proof -
  define eta :: real where "eta = 1 / 2 ^ 1075"
  define u :: real where "u = 1 / 2 ^ 53"
  have eta: "0 < eta" by (simp add: eta_def)
  have u: "0 < u" "u \<le> 1 / 4" by (simp_all add: u_def)
  have B: "0 \<le> B" using assms(1) by linarith
  have eu: "0 \<le> eta * u" "eta * u \<le> eta / 4" using eta u
    by (simp_all add: mult_left_mono[of u "1/4" eta, simplified])
  have c: "\<bar>c\<bar> \<le> 2 * B + 2 * eta" using assms(2) by (simp add: eta_def)
  have "\<bar>fadd x (- c) - (x + (- c))\<bar> \<le> \<bar>x + (- c)\<bar> * u + eta"
    unfolding fadd_def eta_def u_def by (rule rnd_error_mult)
  moreover have "\<bar>x + (- c)\<bar> \<le> 3 * B + 2 * eta" using assms(1) c by linarith
  then have "\<bar>x + (- c)\<bar> * u \<le> (3 * B + 2 * eta) * u" using u by (simp add: mult_right_mono)
  moreover have "(3 * B + 2 * eta) * u = 3 * (B * u) + 2 * (eta * u)" by (simp add: algebra_simps)
  ultimately have "\<bar>fadd x (- c) - (x + (- c))\<bar> \<le> 3 * (B * u) + 2 * eta"
    using eu by linarith
  then show ?thesis by (simp add: eta_def u_def)
qed

text \<open>
  Translating a finite set of coordinates by the negated midpoint of its extremes, all in
  doubles, leaves the extremes of the result symmetric about zero up to rounding.
\<close>

lemma recentred_extremes:
  fixes X :: "real set"
  assumes "finite X" "X \<noteq> {}" "\<forall>x\<in>X. \<bar>x\<bar> \<le> B"
  defines "off \<equiv> - fdiv (fadd (Min X) (Max X)) 2"
  shows "\<bar>Min ((\<lambda>x. fadd x off) ` X) + Max ((\<lambda>x. fadd x off) ` X)\<bar>
           \<le> 11 * B / 2 ^ 53 + 8 / 2 ^ 1075"
proof -
  define c where "c = fdiv (fadd (Min X) (Max X)) 2"
  have off: "off = - c" by (simp add: off_def c_def)
  have mn: "\<bar>Min X\<bar> \<le> B" and mx: "\<bar>Max X\<bar> \<le> B"
    using assms(1-3) by (simp_all add: Min_in Max_in)
  have c_mid: "\<bar>Min X + Max X - 2 * c\<bar> \<le> 5 * B / 2 ^ 53 + 4 / 2 ^ 1075"
    and c_abs: "\<bar>c\<bar> \<le> 2 * B + 2 / 2 ^ 1075"
    unfolding c_def by (rule midpoint_error[OF mn mx])+
  have each: "\<forall>x\<in>X. \<bar>fadd x (- c) - (x + (- c))\<bar> \<le> 3 * B / 2 ^ 53 + 2 / 2 ^ 1075"
  proof
    fix x assume "x \<in> X"
    then have "\<bar>x\<bar> \<le> B" using assms(3) by blast
    then show "\<bar>fadd x (- c) - (x + (- c))\<bar> \<le> 3 * B / 2 ^ 53 + 2 / 2 ^ 1075"
      using c_abs by (rule shifted_error)
  qed
  have lo: "\<bar>Min ((\<lambda>x. fadd x (- c)) ` X) - (Min X + (- c))\<bar> \<le> 3 * B / 2 ^ 53 + 2 / 2 ^ 1075"
    by (rule Min_image_near[OF assms(1,2) each])
  have hi: "\<bar>Max ((\<lambda>x. fadd x (- c)) ` X) - (Max X + (- c))\<bar> \<le> 3 * B / 2 ^ 53 + 2 / 2 ^ 1075"
    by (rule Max_image_near[OF assms(1,2) each])
  define a where "a = Min ((\<lambda>x. fadd x (- c)) ` X)"
  define b where "b = Max ((\<lambda>x. fadd x (- c)) ` X)"
  define E where "E = 3 * B / 2 ^ 53 + 2 / 2 ^ (1075::nat)"
  define F where "F = 5 * B / 2 ^ 53 + 4 / 2 ^ (1075::nat)"
  have "\<bar>a - (Min X + (- c))\<bar> \<le> E" "\<bar>b - (Max X + (- c))\<bar> \<le> E" "\<bar>Min X + Max X - 2 * c\<bar> \<le> F"
    using lo hi c_mid by (simp_all add: a_def b_def E_def F_def)
  then have "\<bar>a + b\<bar> \<le> 2 * E + F" by linarith
  also have "2 * E + F = 11 * B / 2 ^ 53 + 8 / 2 ^ 1075" by (simp add: E_def F_def)
  finally show ?thesis by (simp add: a_def b_def off)
qed

text \<open>The midpoint of two extremes that are already nearly symmetric about zero.\<close>

lemma midpoint_small:
  fixes a b :: real
  assumes "\<bar>a + b\<bar> \<le> T"
  shows "\<bar>fdiv (fadd a b) 2\<bar> \<le> T + 2 / 2 ^ 1075"
proof -
  define eta :: real where "eta = 1 / 2 ^ 1075"
  define u :: real where "u = 1 / 2 ^ 53"
  have eta: "0 < eta" by (simp add: eta_def)
  have u: "0 < u" "u \<le> 1 / 4" by (simp_all add: u_def)
  have T: "0 \<le> T" using assms by linarith
  define s where "s = fadd a b"
  define c where "c = fdiv s 2"
  define A where "A = \<bar>a + b\<bar>"
  define H where "H = \<bar>s / 2\<bar>"
  have "\<bar>s - (a + b)\<bar> \<le> A * u + eta"
    unfolding s_def fadd_def eta_def u_def A_def by (rule rnd_error_mult)
  moreover have "A * u \<le> A * (1 / 4)"
    using u by (intro mult_left_mono) (simp_all add: A_def)
  moreover have "\<bar>s\<bar> \<le> A + \<bar>s - (a + b)\<bar>" unfolding A_def by argo
  ultimately have s: "\<bar>s\<bar> \<le> 5 / 4 * T + eta" using assms A_def by linarith
  have "\<bar>c - s / 2\<bar> \<le> H * u + eta"
    unfolding c_def fdiv_def eta_def u_def H_def by (rule rnd_error_mult)
  moreover have "H * u \<le> H * (1 / 4)"
    using u by (intro mult_left_mono) (simp_all add: H_def)
  moreover have "\<bar>c\<bar> \<le> H + \<bar>c - s / 2\<bar>" unfolding H_def by argo
  moreover have "H = \<bar>s\<bar> / 2" by (simp add: H_def)
  ultimately have "\<bar>c\<bar> \<le> 5 / 8 * \<bar>s\<bar> + eta" by linarith
  with s have "\<bar>c\<bar> \<le> T + 2 * eta" using T eta by linarith
  then show ?thesis by (simp add: c_def s_def eta_def)
qed

text \<open>Adding an offset and subtracting it again, both in doubles.\<close>

lemma round_trip_error:
  fixes x off :: real
  shows "\<bar>fsub (fadd x off) off - x\<bar> \<le> (\<bar>x\<bar> + \<bar>off\<bar>) / 2 ^ 51 + 1 / 2 ^ 1073"
proof -
  define eta :: real where "eta = 1 / 2 ^ 1075"
  define u :: real where "u = 1 / 2 ^ 53"
  define S where "S = \<bar>x\<bar> + \<bar>off\<bar>"
  have eta: "0 < eta" by (simp add: eta_def)
  have u: "0 < u" "u \<le> 1 / 4" by (simp_all add: u_def)
  have S: "0 \<le> S" by (simp add: S_def)
  have Su: "0 \<le> S * u" using S u by simp
  define x1 where "x1 = fadd x off"
  define x2 where "x2 = fsub x1 off"
  define A where "A = \<bar>x + off\<bar>"
  define D where "D = \<bar>x1 - off\<bar>"
  have "\<bar>x1 - (x + off)\<bar> \<le> A * u + eta"
    unfolding x1_def fadd_def eta_def u_def A_def by (rule rnd_error_mult)
  moreover have "A * u \<le> S * u"
    using u by (intro mult_right_mono) (simp_all add: S_def A_def)
  ultimately have e1: "\<bar>x1 - (x + off)\<bar> \<le> S * u + eta" by linarith
  have Su4: "S * u \<le> S * (1 / 4)" using u S by (intro mult_left_mono) simp_all
  have "D \<le> \<bar>x\<bar> + \<bar>x1 - (x + off)\<bar>" unfolding D_def by argo
  moreover have "\<bar>x\<bar> \<le> S" by (simp add: S_def)
  ultimately have b1: "D \<le> 5 / 4 * S + eta" using e1 Su4 by linarith
  have "\<bar>x2 - (x1 - off)\<bar> \<le> D * u + eta"
    unfolding x2_def fsub_def eta_def u_def D_def by (rule rnd_error_mult)
  moreover have "D * u \<le> (5 / 4 * S + eta) * u"
    using b1 u by (intro mult_right_mono) simp_all
  moreover have "(5 / 4 * S + eta) * u = 5 / 4 * (S * u) + eta * u" by (simp add: algebra_simps)
  moreover have "eta * u \<le> eta * (1 / 4)" using u eta by (intro mult_left_mono) simp_all
  ultimately have e2: "\<bar>x2 - (x1 - off)\<bar> \<le> 5 / 4 * (S * u) + 5 / 4 * eta" by linarith
  have "\<bar>x2 - x\<bar> \<le> \<bar>x2 - (x1 - off)\<bar> + \<bar>x1 - (x + off)\<bar>" by argo
  then have "\<bar>x2 - x\<bar> \<le> 4 * (S * u) + 4 * eta" using e1 e2 Su eta by linarith
  moreover have "4 * (S * u) = S / 2 ^ 51" by (simp add: u_def)
  moreover have "4 * eta = 1 / 2 ^ 1073" by (simp add: eta_def)
  ultimately have "\<bar>x2 - x\<bar> \<le> S / 2 ^ 51 + 1 / 2 ^ 1073" by linarith
  then show ?thesis unfolding x2_def x1_def S_def .
qed


section \<open>Entity normalisation: basic facts\<close>

lemma entity_to_json_unfold:
  "entity_to_json int2rgb unit_name e =
     (case get_entity_hex int2rgb e of
        Inl err \<Rightarrow> Inl err
      | Inr hex_color \<Rightarrow>
         (case dxf_layer (dxf e) of
            Inl err \<Rightarrow> Inl err
          | Inr layer \<Rightarrow>
             (case dxf_handle (dxf e) of
                Inl err \<Rightarrow> Inl err
              | Inr handle \<Rightarrow>
                 (let data = \<lparr>j_type = dxftype e, j_layer = layer, j_color_hex = hex_color,
                        j_linetype =
                          (case dxf_linetype (dxf e) of None \<Rightarrow> ''Continuous'' | Some l \<Rightarrow> l),
                        j_lineweight =
                          (case dxf_lineweight (dxf e) of None \<Rightarrow> - 1 | Some w \<Rightarrow> w),
                        j_id = handle\<rparr>
                  in
                  if dxftype e \<in> set text_types then Inr (text_to_json data e)
                  else if dxftype e = ''INSERT'' then
                     (case dxf_name (dxf e) of
                       Inl err \<Rightarrow> Inl err
                     | Inr name \<Rightarrow>
                        (case dxf_insert (dxf e) of
                           Inl err \<Rightarrow> Inl err
                         | Inr ins \<Rightarrow>
                            (case dxf_rotation (dxf e) of
                               Inl err \<Rightarrow> Inl err
                             | Inr rotation \<Rightarrow>
                                (case attribs_to_json int2rgb unit_name (attribs e) of
                                   Inl err \<Rightarrow> Inl err
                                 | Inr attributes \<Rightarrow>
                                     Inr (Some (BlockReferenceEntity data name ins rotation
                                       ((case dxf_xscale (dxf e) of None \<Rightarrow> 1 | Some v \<Rightarrow> v),
                                        (case dxf_yscale (dxf e) of None \<Rightarrow> 1 | Some v \<Rightarrow> v),
                                        (case dxf_zscale (dxf e) of None \<Rightarrow> 1 | Some v \<Rightarrow> v))
                                       attributes))))))
                  else Inr (geometry_to_json unit_name data e)))))"
  by (cases e) (simp add: Let_def split: sum.splits)

lemma entity_to_json_geometry:
  assumes "entity_to_json int2rgb unit_name e =
           Inr (Some (GeometryEntity data lk len ak ar vs n))"
  shows "flattening e = Inr vs \<and> n = length vs \<and> vs \<noteq> []"
  using assms
  by (auto simp: entity_to_json_unfold Let_def text_to_json_def geometry_to_json_def
      split: sum.splits if_splits)

lemma attribs_to_json_set:
  "attribs_to_json int2rgb unit_name es = Inr js \<Longrightarrow> x \<in> set js \<Longrightarrow>
   \<exists>e\<in>set es. entity_to_json int2rgb unit_name e = Inr (Some x)"
  by (induction es arbitrary: js) (auto split: sum.splits option.splits)

lemma attribs_to_json_all_absent:
  "(\<forall>e\<in>set es. entity_to_json int2rgb unit_name e = Inr None) \<Longrightarrow>
   attribs_to_json int2rgb unit_name es = Inr []"
  by (induction es) auto

lemma attribs_to_json_raises:
  assumes "entity_to_json int2rgb unit_name e = Inl err"
    and "\<forall>x\<in>set pre. \<exists>r. entity_to_json int2rgb unit_name x = Inr r"
  shows "attribs_to_json int2rgb unit_name (pre @ e # post) = Inl err"
  using assms by (induction pre) (auto split: sum.splits)

lemma unreadable_entity_raises:
  "entity_to_json int2rgb_bytes ''mm'' unreadable_entity = Inl DXFAttributeError"
  by code_simp

lemma text_entity_ok:
  "entity_to_json int2rgb_bytes ''mm'' (text_entity ''A-101'' (10, 5)) =
     Inr (Some (TextEntity
       \<lparr>j_type = ''TEXT'', j_layer = ''0'', j_color_hex = None, j_linetype = ''Continuous'',
        j_lineweight = - 1, j_id = ''1F''\<rparr> ''A-101'' (10, 5) 0))"
  by code_simp

lemma blank_text_entity_dropped:
  "entity_to_json int2rgb_bytes ''mm'' (text_entity ''  '' (0, 0)) = Inr None"
  by code_simp

lemma set_alist_update:
  "set (AList.update k v al) \<subseteq> insert (k, v) (set al)"
  by (induction al) auto

text \<open>
  Every entry of the block map was stored for a block definition that is not anonymous,
  and holds what the entities of that definition normalise to, which is not empty.
\<close>

lemma blocks_to_json_values:
  "blocks_to_json int2rgb unit_name bs acc = Inr m \<Longrightarrow> (k, js) \<in> set m \<Longrightarrow>
   (k, js) \<in> set acc \<or>
   (\<exists>b\<in>set bs. block_name b = k \<and> \<not> startswith k ''*'' \<and> js \<noteq> [] \<and>
      entities_to_json int2rgb unit_name (block_entities b) = Inr js)"
proof (induction bs arbitrary: acc)
  case Nil
  then show ?case by simp
next
  case (Cons b bs)
  show ?case
  proof (cases "startswith (block_name b) ''*''")
    case True
    with Cons.prems have "blocks_to_json int2rgb unit_name bs acc = Inr m" by simp
    from Cons.IH[OF this Cons.prems(2)] show ?thesis by auto
  next
    case False
    with Cons.prems obtain ents where
      ents: "entities_to_json int2rgb unit_name (block_entities b) = Inr ents" and
      rest: "blocks_to_json int2rgb unit_name bs
               (if ents \<noteq> [] then AList.update (block_name b) ents acc else acc) = Inr m"
      by (auto split: sum.splits)
    from Cons.IH[OF rest Cons.prems(2)]
    consider
      "(k, js) \<in> set (if ents \<noteq> [] then AList.update (block_name b) ents acc else acc)"
      | "\<exists>b\<in>set bs. block_name b = k \<and> \<not> startswith k ''*'' \<and> js \<noteq> [] \<and>
           entities_to_json int2rgb unit_name (block_entities b) = Inr js"
      by blast
    then show ?thesis
    proof cases
      case 1
      show ?thesis
      proof (cases "ents = []")
        case True
        with 1 show ?thesis by simp
      next
        case ne: False
        with 1 have "(k, js) \<in> set (AList.update (block_name b) ents acc)" by simp
        then have "(k, js) \<in> set acc \<or> (k, js) = (block_name b, ents)"
          using set_alist_update[of "block_name b" ents acc] by auto
        then show ?thesis using ents False ne by auto
      qed
    next
      case 2
      then show ?thesis by auto
    qed
  qed
qed

lemma blocks_to_json_keys:
  assumes "blocks_to_json int2rgb unit_name bs [] = Inr m" and "k \<in> fst ` set m"
  shows "\<exists>b\<in>set bs. block_name b = k \<and> \<not> startswith k ''*'' \<and>
      (\<exists>e\<in>set (block_entities b). \<exists>j. entity_to_json int2rgb unit_name e = Inr (Some j))"
proof -
  from assms(2) obtain js where "(k, js) \<in> set m" by auto
  from blocks_to_json_values[OF assms(1) this] obtain b :: raw_block where
    b: "b \<in> set bs" "block_name b = k" "\<not> startswith k ''*''" "js \<noteq> []"
      "entities_to_json int2rgb unit_name (block_entities b) = Inr js"
    by auto
  from b(4) obtain j where "j \<in> set js" by (cases js) auto
  from attribs_to_json_set[OF b(5)[unfolded entities_to_json_def] this] b(1-3)
  show ?thesis by blast
qed

section \<open>The offset: basic facts\<close>

lemma foldl_min_Min:
  "foldl (\<lambda>m item. if item < m then item else m) (x::real) xs = Min (set (x # xs))"
proof (induction xs arbitrary: x)
  case Nil
  then show ?case by simp
next
  case (Cons y ys)
  have "(if y < x then y else x) = min x y" by (simp add: min_def)
  then have "foldl (\<lambda>m item. if item < m then item else m) x (y # ys) =
             Min (set (min x y # ys))" using Cons.IH[of "min x y"] by simp
  also have "\<dots> = Min (set (x # y # ys))"
    by (cases "ys = []") (simp_all add: min.assoc)
  finally show ?case .
qed

lemma foldl_max_Max:
  "foldl (\<lambda>m item. if m < item then item else m) (x::real) xs = Max (set (x # xs))"
proof (induction xs arbitrary: x)
  case Nil
  then show ?case by simp
next
  case (Cons y ys)
  have "(if x < y then y else x) = max x y" by (simp add: max_def)
  then have "foldl (\<lambda>m item. if m < item then item else m) x (y # ys) =
             Max (set (max x y # ys))" using Cons.IH[of "max x y"] by simp
  also have "\<dots> = Max (set (x # y # ys))"
    by (cases "ys = []") (simp_all add: max.assoc)
  finally show ?case .
qed

lemma py_min_Min: "xs \<noteq> [] \<Longrightarrow> py_min xs = Inr (Min (set xs))"
  by (cases xs) (simp_all add: foldl_min_Min del: foldl_Cons set_simps)

lemma py_max_Max: "xs \<noteq> [] \<Longrightarrow> py_max xs = Inr (Max (set xs))"
  by (cases xs) (simp_all add: foldl_max_Max del: foldl_Cons set_simps)

lemma midpoint_eq:
  "xs \<noteq> [] \<Longrightarrow> midpoint xs = Inr (fdiv (fadd (Min (set xs)) (Max (set xs))) 2)"
  by (simp add: midpoint_def py_min_Min py_max_Max)

lemma compute_offset_eq:
  "compute_offset entities =
     (if all_coords entities = [] then Inr (0, 0)
      else Inr (- fdiv (fadd (Min (fst ` set (all_coords entities)))
                             (Max (fst ` set (all_coords entities)))) 2,
                - fdiv (fadd (Min (snd ` set (all_coords entities)))
                             (Max (snd ` set (all_coords entities)))) 2))"
  by (simp add: compute_offset_def Let_def midpoint_eq)

lemma all_coords_set:
  "set (all_coords entities) =
     {p. \<exists>data lk len ak ar vs n.
           GeometryEntity data lk len ak ar vs n \<in> set entities \<and> p \<in> set vs} \<union>
     {p. \<exists>data text rotation. TextEntity data text p rotation \<in> set entities} \<union>
     {p. \<exists>data name rotation scale attributes.
           BlockReferenceEntity data name p rotation scale attributes \<in> set entities}"
proof -
  have "set (entity_coords e) =
     {p. \<exists>data lk len ak ar vs n. e = GeometryEntity data lk len ak ar vs n \<and> p \<in> set vs} \<union>
     {p. \<exists>data text rotation. e = TextEntity data text p rotation} \<union>
     {p. \<exists>data name rotation scale attributes.
           e = BlockReferenceEntity data name p rotation scale attributes}" for e
    by (cases e) auto
  then show ?thesis
    unfolding all_coords_def by (auto simp: set_concat) blast+
qed

lemma shift_entity_coords:
  "shift_entity off e = Inr e' \<Longrightarrow> entity_coords e' = map (shift off) (entity_coords e)"
  by (cases e) (auto split: sum.splits)

lemma apply_offset_coords:
  "apply_offset off es = Inr es' \<Longrightarrow> all_coords es' = map (shift off) (all_coords es)"
  by (induction es arbitrary: es')
     (auto simp: all_coords_def split: sum.splits dest: shift_entity_coords)

lemma apply_offset_set:
  "apply_offset off es = Inr es' \<Longrightarrow> x' \<in> set es' \<Longrightarrow>
   \<exists>x\<in>set es. shift_entity off x = Inr x'"
  by (induction es arbitrary: es') (auto split: sum.splits)

lemma shift_entity_geometry:
  "shift_entity off x = Inr (GeometryEntity data lk len ak ar vs n) \<Longrightarrow>
   \<exists>vs0. x = GeometryEntity data lk len ak ar vs0 n \<and> vs = map (shift off) vs0"
  by (cases x) (auto split: sum.splits)

lemma shift_attribute_erase:
  "shift_attribute off a = Inr a' \<Longrightarrow> erase_insert a' = erase_insert a"
  by (cases a) auto

lemma shift_attributes_erase:
  "shift_attributes off as = Inr as' \<Longrightarrow> map erase_insert as' = map erase_insert as"
  by (induction as arbitrary: as') (auto split: sum.splits dest: shift_attribute_erase)

lemma shift_entity_erase:
  "shift_entity off e = Inr e' \<Longrightarrow> erase_coords e' = erase_coords e"
  by (cases e) (auto split: sum.splits dest: shift_attributes_erase)

lemma apply_offset_erase:
  "apply_offset off es = Inr es' \<Longrightarrow> map erase_coords es' = map erase_coords es"
  by (induction es arbitrary: es') (auto split: sum.splits dest: shift_entity_erase)

lemma shift_attribute_written:
  "shift_attribute off a = Inr a' \<Longrightarrow> attribute_insert a' = map (shift off) (attribute_insert a)"
  by (cases a) auto

lemma shift_attributes_written:
  "shift_attributes off as = Inr as' \<Longrightarrow>
   concat (map attribute_insert as') = map (shift off) (concat (map attribute_insert as))"
  by (induction as arbitrary: as') (auto split: sum.splits dest: shift_attribute_written)

lemma shift_entity_written:
  "shift_entity off e = Inr e' \<Longrightarrow> written_coords e' = map (shift off) (written_coords e)"
  by (cases e) (auto split: sum.splits dest: shift_attributes_written)

lemma apply_offset_written:
  "apply_offset off es = Inr es' \<Longrightarrow>
   concat (map written_coords es') = map (shift off) (concat (map written_coords es))"
  by (induction es arbitrary: es') (auto split: sum.splits dest: shift_entity_written)

text \<open>
  The extremes of the recentred coordinates of an entity list, one axis at a time.
\<close>

lemma recentred_axis:
  fixes pr :: "point \<Rightarrow> float64"
  assumes ne: "all_coords entities \<noteq> []"
    and bound: "\<forall>p\<in>set (all_coords entities). \<bar>pr p\<bar> \<le> B"
    and off: "pr off = - fdiv (fadd (Min (pr ` set (all_coords entities)))
                                    (Max (pr ` set (all_coords entities)))) 2"
    and pr: "\<And>p. pr (shift off p) = fadd (pr p) (pr off)"
    and app: "apply_offset off entities = Inr entities'"
  shows "\<bar>Min (pr ` set (all_coords entities')) + Max (pr ` set (all_coords entities'))\<bar>
           \<le> 11 * B / 2 ^ 53 + 8 / 2 ^ 1075"
proof -
  define X where "X = pr ` set (all_coords entities)"
  have X: "finite X" "X \<noteq> {}" "\<forall>x\<in>X. \<bar>x\<bar> \<le> B"
    using ne bound by (auto simp: X_def)
  have "pr ` set (all_coords entities') = (\<lambda>x. fadd x (pr off)) ` X"
    unfolding apply_offset_coords[OF app] X_def by (auto simp: pr image_iff)
  then show ?thesis
    using recentred_extremes[OF X] by (simp add: off X_def)
qed

lemma fst_shift: "fst (shift off p) = fadd (fst p) (fst off)"
  by (simp add: shift_def)

lemma snd_shift: "snd (shift off p) = fadd (snd p) (snd off)"
  by (simp add: shift_def)

section \<open>The example inputs, evaluated\<close>

lemma parse_sample_document:
  "parse_dxf int2rgb_bytes ''plan.dxf'' (Inr sample_document) = Inr (Some sample_result)"
  by code_simp

lemma parse_absorbing_document:
  "parse_dxf int2rgb_bytes ''plan.dxf'' (Inr absorbing_document) = Inr (Some absorbing_result)"
  by code_simp

lemma two_texts_offset: "compute_offset two_texts = Inr (- 1, 0)"
  by code_simp

lemma two_texts_apply: "apply_offset (- 1, 0) two_texts = Inr two_texts_shifted"
  by code_simp

lemma two_texts_again: "compute_offset two_texts_shifted = Inr (- (1 / 2 ^ 53), 0)"
  by code_simp

lemma rnd_small: "rnd 3 = 3" "rnd 4 = 4" "rnd 7 = 7" "rnd 0 = 0"
  by code_simp+

lemma hypot_3_0: "hypot 3 0 = 3"
  by (simp add: hypot_def rnd_small)

lemma hypot_0_4: "hypot 0 4 = 4"
  by (simp add: hypot_def rnd_small)

lemma py_round4_7: "py_round4 7 = 7"
  by code_simp

lemma length_example: "calculate_length [(0, 0), (3, 0), (3, 4)] = 7"
  by (simp add: calculate_length_def length_step_def fsub_def fadd_def rnd_small
      hypot_3_0 hypot_0_4 py_round4_7)

lemma area_example: "calculate_area [(0, 0), (4, 0), (4, 3), (0, 3)] = 12"
  by code_simp

lemma area_triangle: "calculate_area [(0, 0), (3, 0), (3, 4)] = 6"
  by code_simp

lemma polyline_entity_geometry:
  "entity_to_json int2rgb_bytes ''mm'' (polyline_entity [(0, 0), (3, 0), (3, 4)]) =
     Inr (Some (GeometryEntity (plain_data ''LWPOLYLINE'') ''length (mm)'' 7 ''area (mm^2)'' 6
       [(0, 0), (3, 0), (3, 4)] 3))"
  by (simp add: polyline_entity_def plain_ns_def plain_data_def get_entity_hex_def
      text_types_def geometry_to_json_def length_example area_triangle)

lemma polyline_entity_empty:
  "entity_to_json int2rgb_bytes ''mm'' (polyline_entity []) = Inr None"
  by code_simp

lemma polyline_offset:
  "compute_offset
     [GeometryEntity (plain_data ''LWPOLYLINE'') ''length (mm)'' 7 ''area (mm^2)'' 6
        [(0, 0), (3, 0), (3, 4)] 3] = Inr (- (3 / 2), - 2)"
  by code_simp

lemma polyline_apply:
  "apply_offset (- (3 / 2), - 2)
     [GeometryEntity (plain_data ''LWPOLYLINE'') ''length (mm)'' 7 ''area (mm^2)'' 6
        [(0, 0), (3, 0), (3, 4)] 3] =
   Inr [GeometryEntity (plain_data ''LWPOLYLINE'') ''length (mm)'' 7 ''area (mm^2)'' 6
        [(- (3 / 2), - 2), (3 / 2, - 2), (3 / 2, 2)] 3]"
  by code_simp

lemma parse_polyline_document:
  "parse_dxf int2rgb_bytes ''plan.dxf'' (Inr polyline_document) = Inr (Some polyline_result)"
proof -
  have units: "map_of DXF_UNITS 4 = Some ''mm''" by (simp add: DXF_UNITS_def)
  have sel: "header_insunits polyline_document = Some 4" "doc_layers polyline_document = []"
    by (simp_all add: polyline_document_def)
  have ms: "entities_to_json int2rgb_bytes ''mm'' (doc_modelspace polyline_document) =
      Inr [GeometryEntity (plain_data ''LWPOLYLINE'') ''length (mm)'' 7 ''area (mm^2)'' 6
             [(0, 0), (3, 0), (3, 4)] 3]"
    by (simp add: polyline_document_def entities_to_json_def polyline_entity_geometry
        polyline_entity_empty del: entity_to_json.simps)
  have frame: "\<not> startswith ''FRAME'' ''*''" by code_simp
  have bl: "blocks_to_json int2rgb_bytes ''mm'' (doc_blocks polyline_document) [] =
      Inr [(''FRAME'',
            [GeometryEntity (plain_data ''LWPOLYLINE'') ''length (mm)'' 7 ''area (mm^2)'' 6
               [(0, 0), (3, 0), (3, 4)] 3])]"
    by (simp add: polyline_document_def entities_to_json_def polyline_entity_geometry frame
        del: entity_to_json.simps)
  show ?thesis
    by (simp add: parse_dxf_def Let_def sel units ms bl polyline_offset polyline_apply
        polyline_result_def del: apply_offset.simps)
qed
section \<open>Isolation of a malformed entity\<close>

text \<open>
  Once the common attributes have been read, the text branch and the geometry branch
  cannot raise: whatever fails inside them makes the result \<open>None\<close>.
\<close>

lemma text_branch_isolated:
  assumes "get_entity_hex int2rgb e = Inr hex" "dxf_layer (dxf e) = Inr layer"
    "dxf_handle (dxf e) = Inr handle" "dxftype e \<in> set text_types"
  shows "\<exists>r. entity_to_json int2rgb unit_name e = Inr r"
  using assms by (simp add: entity_to_json_unfold Let_def)

lemma geometry_branch_isolated:
  assumes "get_entity_hex int2rgb e = Inr hex" "dxf_layer (dxf e) = Inr layer"
    "dxf_handle (dxf e) = Inr handle" "dxftype e \<notin> set text_types" "dxftype e \<noteq> ''INSERT''"
  shows "\<exists>r. entity_to_json int2rgb unit_name e = Inr r"
  using assms by (simp add: entity_to_json_unfold Let_def)

text \<open>
  C1.  The claim: a failure while reading one entity only drops that entity, so a
  modelspace of ten entities whose fifth is malformed converts to nine entities without
  an error.  The text and geometry branches do catch their exceptions, but the reads
  that precede the branches do not: here the fifth of ten entities has an indexed colour
  that cannot be read, normalising it raises, and the exception leaves \<open>parse_dxf\<close>;
  no document is produced.
\<close>

theorem malformed_entity_aborts_conversion:
  "length (doc_modelspace ten_entity_document) = 10 \<and>
   doc_modelspace ten_entity_document ! 4 = unreadable_entity \<and>
   entity_to_json int2rgb_bytes ''mm'' unreadable_entity = Inl DXFAttributeError \<and>
   parse_dxf int2rgb_bytes ''plan.dxf'' (Inr ten_entity_document) = Inl DXFAttributeError"
proof -
  have "attribs_to_json int2rgb_bytes ''mm''
          (replicate 4 (text_entity ''A-101'' (10, 5)) @ unreadable_entity #
           replicate 5 (text_entity ''A-101'' (10, 5))) = Inl DXFAttributeError"
    by (rule attribs_to_json_raises[OF unreadable_entity_raises]) (simp add: text_entity_ok)
  then have "parse_dxf int2rgb_bytes ''plan.dxf'' (Inr ten_entity_document) =
             Inl DXFAttributeError"
    by (simp add: parse_dxf_def ten_entity_document_def entities_to_json_def DXF_UNITS_def)
  then show ?thesis
    by (simp add: ten_entity_document_def unreadable_entity_raises nth_append)
qed

section \<open>The offset recentres the bounding box\<close>

text \<open>
  C2, as amended.  \<open>compute_offset\<close> collects every vertex of every geometry entity and
  the insertion point of every text and block reference of the list it is given (the
  modelspace list; attributes nested in a block reference contribute nothing).  Without
  coordinates the offset is \<open>(0, 0)\<close>; otherwise it is, on each axis, the negated
  midpoint \<open>- (min + max) / 2\<close>, computed in doubles.  After \<open>apply_offset\<close> the bounding
  box of those coordinates is centred at the origin up to rounding: when the coordinates
  are bounded by \<open>B \<le> 2 ^ 1022\<close> in magnitude, \<open>\<bar>min + max\<bar>\<close> is at most
  \<open>11 * B / 2 ^ 53 + 1 / 2 ^ 1072\<close> on each axis.  (The claim has the sum equal to zero.)
\<close>

theorem offset_recentres_bounding_box:
  "set (all_coords entities) =
     {p. \<exists>data lk len ak ar vs n.
           GeometryEntity data lk len ak ar vs n \<in> set entities \<and> p \<in> set vs} \<union>
     {p. \<exists>data text rotation. TextEntity data text p rotation \<in> set entities} \<union>
     {p. \<exists>data name rotation scale attributes.
           BlockReferenceEntity data name p rotation scale attributes \<in> set entities}
   \<and> compute_offset entities =
     (if all_coords entities = [] then Inr (0, 0)
      else Inr (- fdiv (fadd (Min (fst ` set (all_coords entities)))
                             (Max (fst ` set (all_coords entities)))) 2,
                - fdiv (fadd (Min (snd ` set (all_coords entities)))
                             (Max (snd ` set (all_coords entities)))) 2))
   \<and> (all_coords entities \<noteq> [] \<and>
      (\<forall>p\<in>set (all_coords entities). \<bar>fst p\<bar> \<le> B \<and> \<bar>snd p\<bar> \<le> B) \<and> B \<le> 2 ^ 1022 \<and>
      compute_offset entities = Inr off \<and> apply_offset off entities = Inr entities' \<longrightarrow>
        \<bar>Min (fst ` set (all_coords entities')) + Max (fst ` set (all_coords entities'))\<bar>
          \<le> 11 * B / 2 ^ 53 + 1 / 2 ^ 1072 \<and>
        \<bar>Min (snd ` set (all_coords entities')) + Max (snd ` set (all_coords entities'))\<bar>
          \<le> 11 * B / 2 ^ 53 + 1 / 2 ^ 1072)"
proof (intro conjI impI)
  show "set (all_coords entities) =
     {p. \<exists>data lk len ak ar vs n.
           GeometryEntity data lk len ak ar vs n \<in> set entities \<and> p \<in> set vs} \<union>
     {p. \<exists>data text rotation. TextEntity data text p rotation \<in> set entities} \<union>
     {p. \<exists>data name rotation scale attributes.
           BlockReferenceEntity data name p rotation scale attributes \<in> set entities}"
    by (rule all_coords_set)
next
  show "compute_offset entities =
     (if all_coords entities = [] then Inr (0, 0)
      else Inr (- fdiv (fadd (Min (fst ` set (all_coords entities)))
                             (Max (fst ` set (all_coords entities)))) 2,
                - fdiv (fadd (Min (snd ` set (all_coords entities)))
                             (Max (snd ` set (all_coords entities)))) 2))"
    by (rule compute_offset_eq)
next
  assume a: "all_coords entities \<noteq> [] \<and>
      (\<forall>p\<in>set (all_coords entities). \<bar>fst p\<bar> \<le> B \<and> \<bar>snd p\<bar> \<le> B) \<and> B \<le> 2 ^ 1022 \<and>
      compute_offset entities = Inr off \<and> apply_offset off entities = Inr entities'"
  then have ne: "all_coords entities \<noteq> []"
    and bx: "\<forall>p\<in>set (all_coords entities). \<bar>fst p\<bar> \<le> B"
    and app: "apply_offset off entities = Inr entities'"
    by auto
  from a have offx: "fst off = - fdiv (fadd (Min (fst ` set (all_coords entities)))
                                          (Max (fst ` set (all_coords entities)))) 2"
    by (auto simp: compute_offset_eq)
  have "\<bar>Min (fst ` set (all_coords entities')) + Max (fst ` set (all_coords entities'))\<bar>
          \<le> 11 * B / 2 ^ 53 + 8 / 2 ^ 1075"
    by (rule recentred_axis[OF ne bx offx fst_shift app])
  then show "\<bar>Min (fst ` set (all_coords entities')) + Max (fst ` set (all_coords entities'))\<bar>
          \<le> 11 * B / 2 ^ 53 + 1 / 2 ^ 1072"
    by simp
next
  assume a: "all_coords entities \<noteq> [] \<and>
      (\<forall>p\<in>set (all_coords entities). \<bar>fst p\<bar> \<le> B \<and> \<bar>snd p\<bar> \<le> B) \<and> B \<le> 2 ^ 1022 \<and>
      compute_offset entities = Inr off \<and> apply_offset off entities = Inr entities'"
  then have ne: "all_coords entities \<noteq> []"
    and bY: "\<forall>p\<in>set (all_coords entities). \<bar>snd p\<bar> \<le> B"
    and app: "apply_offset off entities = Inr entities'"
    by auto
  from a have offy: "snd off = - fdiv (fadd (Min (snd ` set (all_coords entities)))
                                          (Max (snd ` set (all_coords entities)))) 2"
    by (auto simp: compute_offset_eq)
  have "\<bar>Min (snd ` set (all_coords entities')) + Max (snd ` set (all_coords entities'))\<bar>
          \<le> 11 * B / 2 ^ 53 + 8 / 2 ^ 1075"
    by (rule recentred_axis[OF ne bY offy snd_shift app])
  then show "\<bar>Min (snd ` set (all_coords entities')) + Max (snd ` set (all_coords entities'))\<bar>
          \<le> 11 * B / 2 ^ 53 + 1 / 2 ^ 1072"
    by simp
qed

text \<open>
  The theorem at two texts one unit in the last place apart, with \<open>B = 2\<close>: the offset
  is \<open>(- 1, 0)\<close> and the extremes of the recentred x coordinates sum to something within
  the bound.
\<close>

theorem offset_recentres_bounding_box_witness:
  "compute_offset two_texts = Inr (- 1, 0) \<and>
   apply_offset (- 1, 0) two_texts = Inr two_texts_shifted \<and>
   \<bar>Min (fst ` set (all_coords two_texts_shifted)) +
     Max (fst ` set (all_coords two_texts_shifted))\<bar> \<le> 11 * 2 / 2 ^ 53 + 1 / 2 ^ 1072"
proof -
  have "all_coords two_texts = [(1, 0), (1 + 1 / 2 ^ 52, 0)]"
    by (simp add: all_coords_def two_texts_def)
  then have "all_coords two_texts \<noteq> [] \<and>
      (\<forall>p\<in>set (all_coords two_texts). \<bar>fst p\<bar> \<le> 2 \<and> \<bar>snd p\<bar> \<le> 2) \<and> (2::real) \<le> 2 ^ 1022"
    by simp
  then show ?thesis
    using offset_recentres_bounding_box[of two_texts 2 "(- 1, 0)" two_texts_shifted]
      two_texts_offset two_texts_apply
    by blast
qed

text \<open>
  The claim as stated fails there: the recentred x coordinates are \<open>0\<close> and
  \<open>1 / 2 ^ 52\<close>, and their extremes do not sum to zero.
\<close>

theorem recentring_not_exact_counterexample:
  "compute_offset two_texts = Inr (- 1, 0) \<and>
   apply_offset (- 1, 0) two_texts = Inr two_texts_shifted \<and>
   all_coords two_texts_shifted = [(0, 0), (1 / 2 ^ 52, 0)] \<and>
   Min (fst ` set (all_coords two_texts_shifted)) +
     Max (fst ` set (all_coords two_texts_shifted)) \<noteq> 0"
proof -
  have c: "all_coords two_texts_shifted = [(0, 0), (1 / 2 ^ 52, 0)]"
    by (simp add: all_coords_def two_texts_shifted_def)
  have "Min (fst ` set (all_coords two_texts_shifted)) +
     Max (fst ` set (all_coords two_texts_shifted)) = 1 / 2 ^ 52"
    unfolding c by simp
  then show ?thesis using two_texts_offset two_texts_apply c by simp
qed

section \<open>Vertex counts of geometry entities\<close>

text \<open>
  C3.  In a document returned for a drawing whose flattenings are as the parser library
  makes them (never a single vertex), every geometry entity, in the modelspace list or
  in the list of a block, has \<open>vertex_count\<close> equal to the number of its vertices and at
  least 2; and a geometry entity whose flattening yields no vertices, its common
  attributes being readable, is dropped.
\<close>

theorem geometry_vertex_count:
  "(parse_dxf int2rgb name (Inr doc) = Inr (Some d) \<and>
    (\<forall>raw \<in> set (doc_modelspace doc) \<union> (\<Union>b \<in> set (doc_blocks doc). set (block_entities b)).
       path_flattening_ok raw) \<longrightarrow>
      (\<forall>e \<in> set (cd_entities d) \<union> (\<Union>(k, es) \<in> set (cd_blocks d). set es).
         \<forall>data lk len ak ar vs n.
           e = GeometryEntity data lk len ak ar vs n \<longrightarrow> n = length vs \<and> 2 \<le> n))
   \<and> (get_entity_hex int2rgb raw = Inr hex \<and> dxf_layer (dxf raw) = Inr layer \<and>
      dxf_handle (dxf raw) = Inr handle \<and> dxftype raw \<notin> set text_types \<and>
      dxftype raw \<noteq> ''INSERT'' \<and> flattening raw = Inr [] \<longrightarrow>
        entity_to_json int2rgb unit_name raw = Inr None)"
proof (intro conjI impI)
  assume asm: "parse_dxf int2rgb name (Inr doc) = Inr (Some d) \<and>
    (\<forall>raw \<in> set (doc_modelspace doc) \<union> (\<Union>b \<in> set (doc_blocks doc). set (block_entities b)).
       path_flattening_ok raw)"
  then have parsed: "parse_dxf int2rgb name (Inr doc) = Inr (Some d)"
    and ok_ms: "\<forall>r \<in> set (doc_modelspace doc). path_flattening_ok r"
    and ok_bk: "\<forall>b \<in> set (doc_blocks doc). \<forall>r \<in> set (block_entities b). path_flattening_ok r"
    by auto
  from parsed obtain ents off where
    bl: "blocks_to_json int2rgb (cd_units d) (doc_blocks doc) [] = Inr (cd_blocks d)" and
    ents: "entities_to_json int2rgb (cd_units d) (doc_modelspace doc) = Inr ents" and
    app: "apply_offset off ents = Inr (cd_entities d)"
    by (auto simp: parse_dxf_def Let_def split: sum.splits)
  have norm: "n = length vs \<and> 2 \<le> n"
    if "attribs_to_json int2rgb (cd_units d) raws = Inr js"
      and "GeometryEntity data lk len ak ar vs n \<in> set js"
      and "\<forall>r \<in> set raws. path_flattening_ok r"
    for raws js data lk len ak ar vs n
  proof -
    from attribs_to_json_set[OF that(1,2)] obtain r where
      r: "r \<in> set raws"
        "entity_to_json int2rgb (cd_units d) r =
           Inr (Some (GeometryEntity data lk len ak ar vs n))"
      by blast
    from entity_to_json_geometry[OF r(2)]
    have flat: "flattening r = Inr vs" and n: "n = length vs" and ne: "vs \<noteq> []"
      by simp_all
    from that(3) r(1) flat have "length vs \<noteq> 1"
      by (auto simp: path_flattening_ok_def)
    moreover from ne have "length vs \<noteq> 0" by simp
    ultimately show ?thesis using n by arith
  qed
  have ms: "n = length vs \<and> 2 \<le> n"
    if "GeometryEntity data lk len ak ar vs n \<in> set (cd_entities d)" for data lk len ak ar vs n
  proof -
    from apply_offset_set[OF app that] obtain x where
      x: "x \<in> set ents" "shift_entity off x = Inr (GeometryEntity data lk len ak ar vs n)"
      by blast
    from shift_entity_geometry[OF x(2)] obtain vs0 where
      vs0: "x = GeometryEntity data lk len ak ar vs0 n" "vs = map (shift off) vs0" by blast
    from norm[OF ents[unfolded entities_to_json_def] _ ok_ms] x(1) vs0(1)
    have "n = length vs0 \<and> 2 \<le> n" by blast
    with vs0(2) show ?thesis by simp
  qed
  have bk: "n = length vs \<and> 2 \<le> n"
    if "(k, es) \<in> set (cd_blocks d)" "GeometryEntity data lk len ak ar vs n \<in> set es"
    for k es data lk len ak ar vs n
  proof -
    from blocks_to_json_values[OF bl that(1)] obtain b :: raw_block where
      b: "b \<in> set (doc_blocks doc)"
        "entities_to_json int2rgb (cd_units d) (block_entities b) = Inr es" by auto
    from ok_bk b(1) have "\<forall>r \<in> set (block_entities b). path_flattening_ok r" by blast
    from norm[OF b(2)[unfolded entities_to_json_def] that(2) this] show ?thesis .
  qed
  show "\<forall>e \<in> set (cd_entities d) \<union> (\<Union>(k, es) \<in> set (cd_blocks d). set es).
         \<forall>data lk len ak ar vs n.
           e = GeometryEntity data lk len ak ar vs n \<longrightarrow> n = length vs \<and> 2 \<le> n"
    using ms bk by blast
next
  assume "get_entity_hex int2rgb raw = Inr hex \<and> dxf_layer (dxf raw) = Inr layer \<and>
      dxf_handle (dxf raw) = Inr handle \<and> dxftype raw \<notin> set text_types \<and>
      dxftype raw \<noteq> ''INSERT'' \<and> flattening raw = Inr []"
  then show "entity_to_json int2rgb unit_name raw = Inr None"
    by (simp add: entity_to_json_unfold Let_def geometry_to_json_def)
qed

text \<open>
  The theorem at the drawing with a polyline through three points in the modelspace and
  in a block, and at the polyline without a segment.
\<close>

theorem geometry_vertex_count_witness:
  "parse_dxf int2rgb_bytes ''plan.dxf'' (Inr polyline_document) = Inr (Some polyline_result) \<and>
   path_flattening_ok (polyline_entity [(0, 0), (3, 0), (3, 4)]) \<and>
   path_flattening_ok (polyline_entity []) \<and>
   GeometryEntity (plain_data ''LWPOLYLINE'') ''length (mm)'' 7 ''area (mm^2)'' 6
     [(- (3 / 2), - 2), (3 / 2, - 2), (3 / 2, 2)] 3 \<in> set (cd_entities polyline_result) \<and>
   (''FRAME'',
     [GeometryEntity (plain_data ''LWPOLYLINE'') ''length (mm)'' 7 ''area (mm^2)'' 6
        [(0, 0), (3, 0), (3, 4)] 3]) \<in> set (cd_blocks polyline_result) \<and>
   (3::nat) = length [(- (3 / 2), - 2), (3 / 2, - 2), (3 / 2, 2::real)] \<and> (2::nat) \<le> 3 \<and>
   (3::nat) = length [(0, 0), (3, 0), (3, 4::real)] \<and>
   entity_to_json int2rgb_bytes ''mm'' (polyline_entity []) = Inr None"
proof -
  have ok: "path_flattening_ok (polyline_entity [(0, 0), (3, 0), (3, 4)])"
    "path_flattening_ok (polyline_entity [])"
    by (simp_all add: path_flattening_ok_def polyline_entity_def)
  have hex: "get_entity_hex int2rgb_bytes (polyline_entity []) = Inr None"
    by (simp add: get_entity_hex_def polyline_entity_def plain_ns_def)
  have dropped: "entity_to_json int2rgb_bytes ''mm'' (polyline_entity []) = Inr None"
    using geometry_vertex_count[of int2rgb_bytes "''plan.dxf''" polyline_document
        polyline_result "polyline_entity []" None "''0''" "''1F''" "''mm''"] hex
    by (simp add: polyline_entity_def plain_ns_def text_types_def)
  have counts: "(3::nat) = length [(- (3 / 2), - 2), (3 / 2, - 2), (3 / 2, 2::real)] \<and> (2::nat) \<le> 3
      \<and> (3::nat) = length [(0, 0), (3, 0), (3, 4::real)]"
    using geometry_vertex_count[of int2rgb_bytes "''plan.dxf''" polyline_document
        polyline_result] parse_polyline_document ok
    by (simp add: polyline_result_def polyline_document_def)
  show ?thesis
    using parse_polyline_document ok dropped counts by (simp add: polyline_result_def)
qed

section \<open>The colour of an entity\<close>

text \<open>
  What \<open>aci_to_hex\<close> makes of an index between 0 and 255 when it is called with the
  library's \<open>int2rgb\<close>: the red and the green byte are 0 and the blue byte is the index.
\<close>

lemma int2rgb_bytes_index:
  assumes "0 \<le> aci" "aci \<le> 255"
  shows "int2rgb_bytes aci = (0, 0, aci)"
  using assms by (simp add: int2rgb_bytes_def)

lemma aci_to_hex_index:
  assumes "0 \<le> aci" "aci \<le> 255"
  shows "aci_to_hex int2rgb_bytes aci = format_hex (0, 0, aci)"
  using assms by (simp add: aci_to_hex_def int2rgb_bytes_index)

text \<open>
  C4.  The last part of the claim fails on the code.  An indexed colour between 0 and
  255 is not looked up in the colour index table: \<open>aci_to_hex\<close> hands it to \<open>int2rgb\<close>,
  which splits a 24-bit colour value into bytes, so that the index becomes the blue
  byte.  The entities with the indices 1, 2, 3, 5 and 7 (red, yellow, green, blue and
  white in the colour index) get \<open>#000001\<close>, \<open>#000002\<close>, \<open>#000003\<close>, \<open>#000005\<close> and
  \<open>#000007\<close>, whereas the entity with the true colour \<open>0xff0000\<close>, which goes through
  the same function, gets \<open>#ff0000\<close>.  The other parts hold: the by-layer index 256
  gives \<open>None\<close> and an index outside \<open>0 .. 255\<close> gives \<open>#000000\<close>.
\<close>

theorem indexed_colour_becomes_blue_byte:
  "get_entity_hex int2rgb_bytes (indexed_entity 1) = Inr (Some ''#000001'') \<and>
   get_entity_hex int2rgb_bytes (indexed_entity 2) = Inr (Some ''#000002'') \<and>
   get_entity_hex int2rgb_bytes (indexed_entity 3) = Inr (Some ''#000003'') \<and>
   get_entity_hex int2rgb_bytes (indexed_entity 5) = Inr (Some ''#000005'') \<and>
   get_entity_hex int2rgb_bytes (indexed_entity 7) = Inr (Some ''#000007'') \<and>
   get_entity_hex int2rgb_bytes
     (RawEntity ''LINE'' (plain_ns\<lparr>dxf_true_color := Some 16711680\<rparr>)
        (Inl AttributeError) [] (Inr [(0, 0), (1, 0)])) = Inr (Some ''#ff0000'') \<and>
   get_entity_hex int2rgb_bytes (indexed_entity 256) = Inr None \<and>
   get_entity_hex int2rgb_bytes (indexed_entity 300) = Inr (Some ''#000000'')"
  by code_simp

section \<open>Length and area\<close>

lemma foldl_index_zip:
  assumes "length ys = n" "n \<le> length xs"
  shows "foldl (\<lambda>a i. f a (xs ! i, ys ! i)) a [0 ..< n] = foldl f a (zip xs ys)"
proof -
  have "zip xs ys = map (\<lambda>i. (xs ! i, ys ! i)) [0 ..< n]"
    using assms by (intro nth_equalityI) auto
  then show ?thesis by (simp add: foldl_map)
qed

lemma calculate_length_eq: "calculate_length V = path_length V"
proof (cases "length V < 2")
  case True
  then show ?thesis by (auto simp: calculate_length_def path_length_def)
next
  case False
  have step: "length_step V a i = fadd a (segment_length (V ! i, tl V ! i))"
    if "i < length V - 1" for a i
    using that by (simp add: length_step_def segment_length_def nth_tl split: prod.splits)
  have "foldl (length_step V) 0 [0 ..< length V - 1] =
        foldl (\<lambda>a i. fadd a (segment_length (V ! i, tl V ! i))) 0 [0 ..< length V - 1]"
    by (rule foldl_cong) (simp_all add: step)
  also have "\<dots> = foldl (\<lambda>a seg. fadd a (segment_length seg)) 0 (zip V (tl V))"
    by (rule foldl_index_zip) simp_all
  also have "\<dots> = foldl fadd 0 (map segment_length (zip V (tl V)))"
    by (simp add: foldl_map)
  finally show ?thesis using False
    by (auto simp: calculate_length_def path_length_def)
qed

lemma calculate_area_eq: "calculate_area V = polygon_area V"
proof (cases "length V < 3")
  case True
  then show ?thesis by (auto simp: calculate_area_def polygon_area_def)
next
  case False
  then have ne: "V \<noteq> []" by auto
  have nth: "(tl V @ [hd V]) ! i = V ! ((i + 1) mod length V)" if "i < length V" for i
  proof (cases "i + 1 < length V")
    case True
    then have "i < length (tl V)" by simp
    then show ?thesis using True by (simp add: nth_append nth_tl)
  next
    case False
    with that have eq: "i + 1 = length V" by simp
    then have "i = length (tl V)" by simp
    then have "(tl V @ [hd V]) ! i = hd V" by (simp add: nth_append)
    then show ?thesis using ne eq by (simp add: hd_conv_nth)
  qed
  have step: "area_step V a i = shoelace_step a (V ! i, (tl V @ [hd V]) ! i)"
    if "i < length V" for a i
    using that by (simp add: area_step_def shoelace_step_def Let_def nth split: prod.splits)
  have "foldl (area_step V) 0 [0 ..< length V] =
        foldl (\<lambda>a i. shoelace_step a (V ! i, (tl V @ [hd V]) ! i)) 0 [0 ..< length V]"
    by (rule foldl_cong) (simp_all add: step)
  also have "\<dots> = foldl shoelace_step 0 (zip V (tl V @ [hd V]))"
    by (rule foldl_index_zip) (use ne in simp_all)
  finally show ?thesis using False
    by (auto simp: calculate_area_def polygon_area_def)
qed

text \<open>
  C5.  \<open>calculate_length\<close> is the sum of the distances between consecutive points,
  rounded to four decimals, and 0 for fewer than two points; \<open>calculate_area\<close> is the
  absolute shoelace sum over the implicitly closed sequence, halved and rounded to four
  decimals, and 0 for fewer than three points; the rectangle of sides 4 and 3 has area
  12 and the path \<open>(0,0), (3,0), (3,4)\<close> has length 7.
\<close>

theorem length_and_area_formulas:
  "calculate_length V = path_length V \<and>
   calculate_area V = polygon_area V \<and>
   (length V < 2 \<longrightarrow> calculate_length V = 0) \<and>
   (length V < 3 \<longrightarrow> calculate_area V = 0) \<and>
   calculate_area [(0, 0), (4, 0), (4, 3), (0, 3)] = 12 \<and>
   calculate_length [(0, 0), (3, 0), (3, 4)] = 7"
  using calculate_length_eq[of V] calculate_area_eq[of V] area_example length_example
  by (auto simp: path_length_def polygon_area_def)

text \<open>The theorem at a single point and at a two-point path.\<close>

theorem length_and_area_formulas_witness:
  "calculate_length [(1, 1)] = 0 \<and> calculate_area [(0, 0), (4, 0)] = 0 \<and>
   calculate_length [(0, 0), (3, 0), (3, 4)] =
     py_round4 (fadd (fadd 0 (hypot (fsub 3 0) (fsub 0 0))) (hypot (fsub 3 3) (fsub 4 0)))"
  using length_and_area_formulas[of "[(1, 1)]"] length_and_area_formulas[of "[(0, 0), (4, 0)]"]
    length_and_area_formulas[of "[(0, 0), (3, 0), (3, 4)]"]
  by (simp add: path_length_def segment_length_def)

section \<open>Text entities\<close>

text \<open>
  C6.  For a text-like entity whose common attributes are readable: if its content is
  empty or only whitespace, normalisation returns \<open>None\<close>; if its content is \<open>A-101\<close>,
  its insertion point \<open>(10, 5)\<close> and its rotation 0, normalisation returns a text entity
  with exactly that text, insertion point and rotation.
\<close>

theorem text_entity_normalisation:
  assumes "get_entity_hex int2rgb e = Inr hex"
    and "dxf_layer (dxf e) = Inr layer"
    and "dxf_handle (dxf e) = Inr handle"
    and "dxftype e \<in> set text_types"
    and "(if dxftype e = ''MTEXT'' then plain_text e else dxf_text (dxf e)) = Inr content"
  shows "((content = [] \<or> (\<forall>c \<in> set content. is_space c)) \<longrightarrow>
            entity_to_json int2rgb unit_name e = Inr None) \<and>
         (content = ''A-101'' \<and> dxf_insert (dxf e) = Inr (10, 5) \<and>
          dxf_rotation (dxf e) = Inr 0 \<longrightarrow>
            entity_to_json int2rgb unit_name e =
              Inr (Some (TextEntity
                \<lparr>j_type = dxftype e, j_layer = layer, j_color_hex = hex,
                 j_linetype =
                   (case dxf_linetype (dxf e) of None \<Rightarrow> ''Continuous'' | Some l \<Rightarrow> l),
                 j_lineweight = (case dxf_lineweight (dxf e) of None \<Rightarrow> - 1 | Some w \<Rightarrow> w),
                 j_id = handle\<rparr>
                ''A-101'' (10, 5) 0)))"
proof -
  have blank: "entity_to_json int2rgb unit_name e = Inr None" if "is_blank content"
    using assms that
    by (auto simp: entity_to_json_unfold Let_def text_to_json_def split: sum.splits)
  have "\<not> is_blank ''A-101''"
    by (simp add: is_blank_def is_space_def)
  then have ex: "entity_to_json int2rgb unit_name e =
              Inr (Some (TextEntity
                \<lparr>j_type = dxftype e, j_layer = layer, j_color_hex = hex,
                 j_linetype =
                   (case dxf_linetype (dxf e) of None \<Rightarrow> ''Continuous'' | Some l \<Rightarrow> l),
                 j_lineweight = (case dxf_lineweight (dxf e) of None \<Rightarrow> - 1 | Some w \<Rightarrow> w),
                 j_id = handle\<rparr>
                ''A-101'' (10, 5) 0))"
    if "content = ''A-101''" "dxf_insert (dxf e) = Inr (10, 5)" "dxf_rotation (dxf e) = Inr 0"
    using assms that
    by (simp add: entity_to_json_unfold Let_def text_to_json_def rotation_or_default_def)
  show ?thesis using blank ex by (auto simp: is_blank_def list_all_iff)
qed

text \<open>The theorem at a text of two spaces and at the text \<open>A-101\<close>.\<close>

theorem text_entity_normalisation_witness:
  "entity_to_json int2rgb_bytes ''mm'' (text_entity ''  '' (0, 0)) = Inr None \<and>
   entity_to_json int2rgb_bytes ''mm'' (text_entity ''A-101'' (10, 5)) =
     Inr (Some (TextEntity (plain_data ''TEXT'') ''A-101'' (10, 5) 0))"
proof -
  have hex: "get_entity_hex int2rgb_bytes (text_entity s p) = Inr None" for s p
    by (simp add: get_entity_hex_def text_entity_def plain_ns_def)
  have "entity_to_json int2rgb_bytes ''mm'' (text_entity ''  '' (0, 0)) = Inr None"
    using text_entity_normalisation[of int2rgb_bytes "text_entity ''  '' (0, 0)" None
        "''0''" "''1F''" "''  ''" "''mm''"] hex
    by (simp add: text_entity_def plain_ns_def text_types_def is_space_def)
  moreover have "entity_to_json int2rgb_bytes ''mm'' (text_entity ''A-101'' (10, 5)) =
     Inr (Some (TextEntity (plain_data ''TEXT'') ''A-101'' (10, 5) 0))"
    using text_entity_normalisation[of int2rgb_bytes "text_entity ''A-101'' (10, 5)" None
        "''0''" "''1F''" "''A-101''" "''mm''"] hex
    by (simp add: text_entity_def plain_ns_def text_types_def plain_data_def)
  ultimately show ?thesis by simp
qed

section \<open>Recomputing the offset\<close>

text \<open>
  C7, as amended.  For a non-empty list of normalised modelspace entities whose
  coordinates are bounded by \<open>B \<le> 2 ^ 1022\<close> in magnitude, applying the computed offset
  and computing the offset again over the result yields an offset that is zero up to
  rounding: each component is at most \<open>11 * B / 2 ^ 53 + 10 / 2 ^ 1075\<close> in magnitude.
  (The claim has the second offset equal to \<open>(0, 0)\<close>.)
\<close>

theorem recomputed_offset_negligible:
  assumes "all_coords entities \<noteq> []"
    and "\<forall>p\<in>set (all_coords entities). \<bar>fst p\<bar> \<le> B \<and> \<bar>snd p\<bar> \<le> B"
    and "B \<le> 2 ^ 1022"
    and "compute_offset entities = Inr off"
    and "apply_offset off entities = Inr entities'"
  shows "\<exists>off2. compute_offset entities' = Inr off2 \<and>
           \<bar>fst off2\<bar> \<le> 11 * B / 2 ^ 53 + 10 / 2 ^ 1075 \<and>
           \<bar>snd off2\<bar> \<le> 11 * B / 2 ^ 53 + 10 / 2 ^ 1075"
proof -
  have bx: "\<forall>p\<in>set (all_coords entities). \<bar>fst p\<bar> \<le> B"
    and bY: "\<forall>p\<in>set (all_coords entities). \<bar>snd p\<bar> \<le> B"
    using assms(2) by auto
  from assms(1,4)
  have offx: "fst off = - fdiv (fadd (Min (fst ` set (all_coords entities)))
                                     (Max (fst ` set (all_coords entities)))) 2"
    and offy: "snd off = - fdiv (fadd (Min (snd ` set (all_coords entities)))
                                     (Max (snd ` set (all_coords entities)))) 2"
    by (auto simp: compute_offset_eq)
  define X' where "X' = fst ` set (all_coords entities')"
  define Y' where "Y' = snd ` set (all_coords entities')"
  have x: "\<bar>Min X' + Max X'\<bar> \<le> 11 * B / 2 ^ 53 + 8 / 2 ^ 1075"
    unfolding X'_def by (rule recentred_axis[OF assms(1) bx offx fst_shift assms(5)])
  have y: "\<bar>Min Y' + Max Y'\<bar> \<le> 11 * B / 2 ^ 53 + 8 / 2 ^ 1075"
    unfolding Y'_def by (rule recentred_axis[OF assms(1) bY offy snd_shift assms(5)])
  have ne': "all_coords entities' \<noteq> []"
    using assms(1) by (simp add: apply_offset_coords[OF assms(5)])
  then have c: "compute_offset entities' =
      Inr (- fdiv (fadd (Min X') (Max X')) 2, - fdiv (fadd (Min Y') (Max Y')) 2)"
    by (simp add: compute_offset_eq X'_def Y'_def)
  have "\<bar>fdiv (fadd (Min X') (Max X')) 2\<bar> \<le> 11 * B / 2 ^ 53 + 8 / 2 ^ 1075 + 2 / 2 ^ 1075"
    by (rule midpoint_small[OF x])
  moreover
  have "\<bar>fdiv (fadd (Min Y') (Max Y')) 2\<bar> \<le> 11 * B / 2 ^ 53 + 8 / 2 ^ 1075 + 2 / 2 ^ 1075"
    by (rule midpoint_small[OF y])
  ultimately show ?thesis using c by simp
qed

text \<open>
  The theorem at the two texts one unit in the last place apart, with \<open>B = 2\<close>.
\<close>

theorem recomputed_offset_negligible_witness:
  "\<exists>off2. compute_offset two_texts_shifted = Inr off2 \<and>
      \<bar>fst off2\<bar> \<le> 11 * 2 / 2 ^ 53 + 10 / 2 ^ 1075 \<and>
      \<bar>snd off2\<bar> \<le> 11 * 2 / 2 ^ 53 + 10 / 2 ^ 1075"
proof -
  have "all_coords two_texts = [(1, 0), (1 + 1 / 2 ^ 52, 0)]"
    by (simp add: all_coords_def two_texts_def)
  then have "all_coords two_texts \<noteq> []"
    and "\<forall>p\<in>set (all_coords two_texts). \<bar>fst p\<bar> \<le> 2 \<and> \<bar>snd p\<bar> \<le> 2"
    and "(2::real) \<le> 2 ^ 1022"
    by simp_all
  then show ?thesis
    using two_texts_offset two_texts_apply by (rule recomputed_offset_negligible)
qed

text \<open>
  The claim as stated fails there: the offset of the two recentred texts is
  \<open>(- 1 / 2 ^ 53, 0)\<close>, not \<open>(0, 0)\<close>.
\<close>

theorem recomputed_offset_counterexample:
  "compute_offset two_texts = Inr (- 1, 0) \<and>
   apply_offset (- 1, 0) two_texts = Inr two_texts_shifted \<and>
   compute_offset two_texts_shifted = Inr (- (1 / 2 ^ 53), 0) \<and>
   compute_offset two_texts_shifted \<noteq> Inr (0, 0)"
  using two_texts_offset two_texts_apply two_texts_again by simp

section \<open>The keys of the block map\<close>

text \<open>
  C8.  In a returned document, no name that starts with \<open>*\<close> is a key of the block
  map, whatever the modelspace refers to; and the name of a block definition is not a key
  either when the entities of every definition of that name all normalise to \<open>None\<close>.
\<close>

theorem blocks_map_keys:
  assumes "parse_dxf int2rgb name (Inr doc) = Inr (Some d)"
  shows "(\<forall>k. startswith k ''*'' \<longrightarrow> k \<notin> fst ` set (cd_blocks d)) \<and>
         (\<forall>b \<in> set (doc_blocks doc).
            (\<forall>b' \<in> set (doc_blocks doc). block_name b' = block_name b \<longrightarrow>
               (\<forall>e \<in> set (block_entities b').
                  entity_to_json int2rgb (cd_units d) e = Inr None)) \<longrightarrow>
            block_name b \<notin> fst ` set (cd_blocks d))"
proof -
  from assms have bl:
    "blocks_to_json int2rgb (cd_units d) (doc_blocks doc) [] = Inr (cd_blocks d)"
    by (auto simp: parse_dxf_def Let_def split: sum.splits)
  have *: "\<exists>b\<in>set (doc_blocks doc). block_name b = k \<and> \<not> startswith k ''*'' \<and>
      (\<exists>e\<in>set (block_entities b). \<exists>j. entity_to_json int2rgb (cd_units d) e = Inr (Some j))"
    if "k \<in> fst ` set (cd_blocks d)" for k
    using blocks_to_json_keys[OF bl that] .
  show ?thesis
  proof (intro conjI allI ballI impI)
    fix k assume "startswith k ''*''"
    then show "k \<notin> fst ` set (cd_blocks d)" using * by blast
  next
    fix b :: raw_block
    assume b: "b \<in> set (doc_blocks doc)"
      and all: "\<forall>b' \<in> set (doc_blocks doc). block_name b' = block_name b \<longrightarrow>
               (\<forall>e \<in> set (block_entities b').
                  entity_to_json int2rgb (cd_units d) e = Inr None)"
    show "block_name b \<notin> fst ` set (cd_blocks d)"
    proof
      assume "block_name b \<in> fst ` set (cd_blocks d)"
      from *[OF this] obtain b' :: raw_block and e j where
        "b' \<in> set (doc_blocks doc)" "block_name b' = block_name b"
        "e \<in> set (block_entities b')" "entity_to_json int2rgb (cd_units d) e = Inr (Some j)"
        by blast
      with all show False by fastforce
    qed
  qed
qed

text \<open>
  The theorem at the sample drawing: the anonymous block \<open>*U1\<close>, which the modelspace
  refers to, and the block \<open>EMPTY\<close>, whose only text is blank, are not keys.
\<close>

theorem blocks_map_keys_witness:
  "parse_dxf int2rgb_bytes ''plan.dxf'' (Inr sample_document) = Inr (Some sample_result) \<and>
   ''*U1'' \<notin> fst ` set (cd_blocks sample_result) \<and>
   ''EMPTY'' \<notin> fst ` set (cd_blocks sample_result)"
proof -
  define b :: raw_block where
    "b = \<lparr>block_name = ''EMPTY'', block_entities = [text_entity ''  '' (0, 0)]\<rparr>"
  note k = blocks_map_keys[OF parse_sample_document]
  have "startswith ''*U1'' ''*''" by (simp add: startswith_def)
  with k have 1: "''*U1'' \<notin> fst ` set (cd_blocks sample_result)" by blast
  have u: "cd_units sample_result = ''mm''" by (simp add: sample_result_def)
  have bs: "doc_blocks sample_document =
      [\<lparr>block_name = ''*U1'', block_entities = [text_entity ''hidden'' (1, 1)]\<rparr>, b,
       \<lparr>block_name = ''TITLE'', block_entities = [text_entity ''A-101'' (10, 5)]\<rparr>]"
    by (simp add: sample_document_def b_def)
  have mem: "b \<in> set (doc_blocks sample_document)" unfolding bs by simp
  have same: "b' = b"
    if "b' \<in> set (doc_blocks sample_document)" "block_name b' = block_name b" for b'
    using that unfolding bs by (auto simp: b_def)
  have "\<forall>b' \<in> set (doc_blocks sample_document). block_name b' = block_name b \<longrightarrow>
          (\<forall>e \<in> set (block_entities b').
             entity_to_json int2rgb_bytes (cd_units sample_result) e = Inr None)"
  proof (intro ballI impI)
    fix b' :: raw_block and e
    assume b': "b' \<in> set (doc_blocks sample_document)" "block_name b' = block_name b"
      and e: "e \<in> set (block_entities b')"
    from b' have "b' = b" by (rule same)
    with e have "e = text_entity ''  '' (0, 0)" by (simp add: b_def)
    then show "entity_to_json int2rgb_bytes (cd_units sample_result) e = Inr None"
      unfolding u by (simp only: blank_text_entity_dropped)
  qed
  with k mem have "block_name b \<notin> fst ` set (cd_blocks sample_result)" by blast
  then have 2: "''EMPTY'' \<notin> fst ` set (cd_blocks sample_result)" by (simp add: b_def)
  show ?thesis using parse_sample_document 1 2 by simp
qed

section \<open>What the offset pass leaves alone\<close>

text \<open>
  C9.  In a returned document the block map is what normalising the block definitions
  produced: the offset pass, which runs afterwards on the modelspace list only, changes
  no entity of it.  And each modelspace entity differs from what normalisation produced
  at most in the coordinates the pass writes: the vertices of a geometry entity, the
  insertion point of a text or a block reference, and the insertion points of the
  attributes of a block reference.
\<close>

theorem offset_pass_frame:
  assumes "parse_dxf int2rgb name (Inr doc) = Inr (Some d)"
  shows "blocks_to_json int2rgb (cd_units d) (doc_blocks doc) [] = Inr (cd_blocks d) \<and>
         (\<exists>ents. entities_to_json int2rgb (cd_units d) (doc_modelspace doc) = Inr ents \<and>
                 map erase_coords (cd_entities d) = map erase_coords ents)"
  using assms
  by (auto simp: parse_dxf_def Let_def split: sum.splits dest: apply_offset_erase)

text \<open>The theorem at the sample drawing.\<close>

theorem offset_pass_frame_witness:
  "parse_dxf int2rgb_bytes ''plan.dxf'' (Inr sample_document) = Inr (Some sample_result) \<and>
   blocks_to_json int2rgb_bytes ''mm'' (doc_blocks sample_document) [] =
     Inr [(''TITLE'', [TextEntity (plain_data ''TEXT'') ''A-101'' (10, 5) 0])] \<and>
   (\<exists>ents. entities_to_json int2rgb_bytes ''mm'' (doc_modelspace sample_document) = Inr ents \<and>
           map erase_coords (cd_entities sample_result) = map erase_coords ents)"
  using offset_pass_frame[OF parse_sample_document] parse_sample_document
  by (simp add: sample_result_def)

section \<open>The offset field is the translation applied\<close>

text \<open>
  C10, as amended.  In a returned document every coordinate the offset pass writes (the
  vertices of the modelspace geometry entities, the insertion points of the modelspace
  texts and block references, and the insertion points of their attributes) is the sum,
  in doubles, of the coordinate normalisation produced and the component of the offset
  field.  Subtracting the offset again recovers the normalised coordinate up to rounding:
  when the coordinates are at most \<open>2 ^ 1022\<close> in magnitude, the recovered \<open>x\<close> differs
  from the original by at most \<open>(\<bar>x\<bar> + \<bar>offset.x\<bar>) / 2 ^ 51 + 1 / 2 ^ 1073\<close>, and
  likewise for \<open>y\<close>.  (The claim has the coordinates recovered precisely.)
\<close>

theorem offset_field_is_translation:
  assumes "parse_dxf int2rgb name (Inr doc) = Inr (Some d)"
  shows "\<exists>ents. entities_to_json int2rgb (cd_units d) (doc_modelspace doc) = Inr ents \<and>
           concat (map written_coords (cd_entities d)) =
             map (shift (cd_offset d)) (concat (map written_coords ents)) \<and>
           ((\<forall>q \<in> set (concat (map written_coords ents)).
               \<bar>fst q\<bar> \<le> 2 ^ 1022 \<and> \<bar>snd q\<bar> \<le> 2 ^ 1022) \<longrightarrow>
            (\<forall>p \<in> set (concat (map written_coords ents)).
               \<bar>fsub (fst (shift (cd_offset d) p)) (fst (cd_offset d)) - fst p\<bar>
                 \<le> (\<bar>fst p\<bar> + \<bar>fst (cd_offset d)\<bar>) / 2 ^ 51 + 1 / 2 ^ 1073 \<and>
               \<bar>fsub (snd (shift (cd_offset d) p)) (snd (cd_offset d)) - snd p\<bar>
                 \<le> (\<bar>snd p\<bar> + \<bar>snd (cd_offset d)\<bar>) / 2 ^ 51 + 1 / 2 ^ 1073))"
proof -
  from assms obtain ents where
    ents: "entities_to_json int2rgb (cd_units d) (doc_modelspace doc) = Inr ents" and
    app: "apply_offset (cd_offset d) ents = Inr (cd_entities d)"
    by (auto simp: parse_dxf_def Let_def split: sum.splits)
  have "\<bar>fsub (fst (shift (cd_offset d) p)) (fst (cd_offset d)) - fst p\<bar>
          \<le> (\<bar>fst p\<bar> + \<bar>fst (cd_offset d)\<bar>) / 2 ^ 51 + 1 / 2 ^ 1073 \<and>
        \<bar>fsub (snd (shift (cd_offset d) p)) (snd (cd_offset d)) - snd p\<bar>
          \<le> (\<bar>snd p\<bar> + \<bar>snd (cd_offset d)\<bar>) / 2 ^ 51 + 1 / 2 ^ 1073" for p
    unfolding fst_shift snd_shift by (intro conjI round_trip_error)
  with ents apply_offset_written[OF app] show ?thesis by blast
qed

text \<open>
  The theorem at the drawing with a text at \<open>x = 1 / 2 ^ 60\<close> and one at \<open>x = 2\<close>.
\<close>

theorem offset_field_is_translation_witness:
  "parse_dxf int2rgb_bytes ''plan.dxf'' (Inr absorbing_document) = Inr (Some absorbing_result) \<and>
   concat (map written_coords (cd_entities absorbing_result)) =
     map (shift (- 1, 0)) [(1 / 2 ^ 60, 0), (2, 0)] \<and>
   \<bar>fsub (fst (shift (- 1, 0) (1 / 2 ^ 60, 0))) (- 1) - 1 / 2 ^ 60\<bar>
     \<le> (\<bar>1 / 2 ^ 60\<bar> + \<bar>- 1\<bar>) / 2 ^ 51 + 1 / 2 ^ 1073"
proof -
  have e: "entities_to_json int2rgb_bytes ''Unitless'' (doc_modelspace absorbing_document) =
      Inr [TextEntity (plain_data ''TEXT'') ''A'' (1 / 2 ^ 60, 0) 0,
           TextEntity (plain_data ''TEXT'') ''B'' (2, 0) 0]"
    by code_simp
  have o: "cd_offset absorbing_result = (- 1, 0)" "cd_units absorbing_result = ''Unitless''"
    by (simp_all add: absorbing_result_def)
  from offset_field_is_translation[OF parse_absorbing_document]
  have "concat (map written_coords (cd_entities absorbing_result)) =
          map (shift (- 1, 0)) [(1 / 2 ^ 60, 0), (2, 0)] \<and>
        \<bar>fsub (fst (shift (- 1, 0) (1 / 2 ^ 60, 0))) (- 1) - 1 / 2 ^ 60\<bar>
          \<le> (\<bar>1 / 2 ^ 60\<bar> + \<bar>- 1\<bar>) / 2 ^ 51 + 1 / 2 ^ 1073"
    unfolding o e by simp
  then show ?thesis using parse_absorbing_document by simp
qed

text \<open>
  The claim as stated fails there: the text at \<open>x = 1 / 2 ^ 60\<close> is moved to \<open>x = - 1\<close>
  by the offset \<open>- 1\<close>, and subtracting the offset gives \<open>0\<close>.
\<close>

theorem offset_not_recoverable_counterexample:
  "parse_dxf int2rgb_bytes ''plan.dxf'' (Inr absorbing_document) = Inr (Some absorbing_result) \<and>
   entities_to_json int2rgb_bytes ''Unitless'' (doc_modelspace absorbing_document) =
      Inr [TextEntity (plain_data ''TEXT'') ''A'' (1 / 2 ^ 60, 0) 0,
           TextEntity (plain_data ''TEXT'') ''B'' (2, 0) 0] \<and>
   cd_offset absorbing_result = (- 1, 0) \<and>
   cd_entities absorbing_result ! 0 = TextEntity (plain_data ''TEXT'') ''A'' (- 1, 0) 0 \<and>
   fsub (- 1) (- 1) = 0 \<and>
   fsub (- 1) (- 1) \<noteq> 1 / 2 ^ 60"
proof -
  have e: "entities_to_json int2rgb_bytes ''Unitless'' (doc_modelspace absorbing_document) =
      Inr [TextEntity (plain_data ''TEXT'') ''A'' (1 / 2 ^ 60, 0) 0,
           TextEntity (plain_data ''TEXT'') ''B'' (2, 0) 0]"
    by code_simp
  have f: "fsub (- 1) (- 1) = 0" by code_simp
  show ?thesis using parse_absorbing_document e f by (simp add: absorbing_result_def)
qed

end
